theory Spec2Isabelle
  imports Complex_Main
begin

section \<open>Values, strings and errors\<close>

text \<open>
  A Go \<^verbatim>\<open>error\<close> is carried by the text its \<^verbatim>\<open>Error()\<close> method returns; \<^verbatim>\<open>nil\<close> is
  \<open>None\<close> (or the \<open>Inr\<close> side of a sum).
\<close>

type_synonym error = string

text \<open>
  A value of type \<^verbatim>\<open>interface{}\<close>.  The first six constructors are what
  \<^verbatim>\<open>encoding/json\<close> decodes into; \<open>GInt64\<close> and \<open>GInt\<close> are the two further dynamic
  types \<^verbatim>\<open>getInt64\<close> switches on.  Struct values of the Grafana API (dashboards,
  datasources, alert rules, ...) are carried as \<open>GObj\<close> with their Go field names.
\<close>

datatype gval =
    GNil
  | GBool bool
  | GFloat rat
  | GInt64 int
  | GInt int
  | GStr string
  | GArr "gval list"
  | GObj "(string \<times> gval) list"

type_synonym gmap = "(string \<times> gval) list"

fun hasPrefix :: "string \<Rightarrow> string \<Rightarrow> bool" where
  "hasPrefix s [] = True"
| "hasPrefix [] (p # ps) = False"
| "hasPrefix (c # cs) (p # ps) = (c = p \<and> hasPrefix cs ps)"

text \<open>\<^verbatim>\<open>strings.Contains(s, sub)\<close>.\<close>

fun Contains :: "string \<Rightarrow> string \<Rightarrow> bool" where
  "Contains [] sub = (sub = [])"
| "Contains (c # cs) sub = (hasPrefix (c # cs) sub \<or> Contains cs sub)"

text \<open>\<^verbatim>\<open>fmt.Sprintf("%d", n)\<close> for a Go \<^verbatim>\<open>int\<close>: decimal digits, a minus sign when negative.\<close>

definition digitChar :: "nat \<Rightarrow> char" where
  "digitChar d = ''0123456789'' ! d"

function natDigits :: "nat \<Rightarrow> string" where
  "natDigits n = (if n < 10 then [digitChar n] else natDigits (n div 10) @ [digitChar (n mod 10)])"
  by pat_completeness auto
termination
  by (relation "measure id") auto

definition itoa :: "int \<Rightarrow> string" where
  "itoa i = (if i < 0 then CHR ''-'' # natDigits (nat (- i)) else natDigits (nat i))"

section \<open>The Grafana client: \<^verbatim>\<open>internal/grafana/client.go\<close>\<close>

text \<open>
  The outbound request as \<^verbatim>\<open>doRequest\<close> builds it, and what \<^verbatim>\<open>httpClient.Do\<close> followed by
  \<^verbatim>\<open>io.ReadAll(resp.Body)\<close> can give: a transport fault, or a response with its status
  code and the outcome of reading its body.
\<close>

record HttpRequest =
  reqMethod :: string
  reqURL :: string
  reqBody :: "string option"
  reqHeader :: "string \<rightharpoonup> string"

datatype HttpOutcome =
    DoError error
  | DoResponse int "error + string"

text \<open>
  The \<^verbatim>\<open>Client\<close> struct.  The network and the remote server are a state \<open>'w\<close> that
  \<^verbatim>\<open>httpClient.Do\<close> reads and changes.  \<open>jsonMarshal\<close> and \<open>newRequest\<close> stand for the
  library calls \<^verbatim>\<open>json.Marshal\<close> and \<^verbatim>\<open>http.NewRequest\<close>.
\<close>

record 'w Client =
  baseURL :: string
  apiKey :: string
  httpClient :: "HttpRequest \<Rightarrow> 'w \<Rightarrow> HttpOutcome \<times> 'w"
  jsonMarshal :: "gval \<Rightarrow> error + string"
  newRequest :: "string \<Rightarrow> string \<Rightarrow> string option \<Rightarrow> error + HttpRequest"

definition setHeaders :: "'w Client \<Rightarrow> HttpRequest \<Rightarrow> HttpRequest" where
  "setHeaders c req =
     req\<lparr>reqHeader := (reqHeader req)
        (''Authorization'' \<mapsto> ''Bearer '' @ apiKey c,
         ''Content-Type'' \<mapsto> ''application/json'',
         ''Accept'' \<mapsto> ''application/json'')\<rparr>"

text \<open>The classification of a fault of \<^verbatim>\<open>httpClient.Do\<close>.\<close>

definition classifyDoError :: "'w Client \<Rightarrow> error \<Rightarrow> error" where
  "classifyDoError c e =
     (if Contains e ''connection refused'' then
        ''cannot connect to Grafana at '' @ baseURL c
          @ '': connection refused. Ensure Grafana is running and accessible''
      else if Contains e ''no such host'' then
        ''cannot connect to Grafana at '' @ baseURL c
          @ '': host not found. Check GRAFANA_URL configuration''
      else if Contains e ''timeout'' then
        ''connection to Grafana at '' @ baseURL c
          @ '' timed out. Check network connectivity''
      else ''request to Grafana failed: '' @ e)"

text \<open>
  The second half of \<^verbatim>\<open>doRequest\<close>, from setting the headers on: the exchange, reading
  the body, and the status check.
\<close>

definition sendRequest :: "'w Client \<Rightarrow> HttpRequest \<Rightarrow> 'w \<Rightarrow> (error + string) \<times> 'w" where
  "sendRequest c req w =
     (case httpClient c (setHeaders c req) w of
        (DoError e, w') \<Rightarrow> (Inl (classifyDoError c e), w')
      | (DoResponse status (Inl e), w') \<Rightarrow> (Inl (''failed to read response: '' @ e), w')
      | (DoResponse status (Inr respBody), w') \<Rightarrow>
          (if status \<ge> 400 then
             (Inl (''API error (status '' @ itoa status @ ''): '' @ respBody), w')
           else (Inr respBody, w')))"

text \<open>The first block of \<^verbatim>\<open>doRequest\<close>: the request body, encoded when there is one.\<close>

definition encodeBody :: "'w Client \<Rightarrow> gval option \<Rightarrow> error + string option" where
  "encodeBody c body =
     (case body of
        None \<Rightarrow> Inr None
      | Some b \<Rightarrow>
          (case jsonMarshal c b of
             Inl e \<Rightarrow> Inl (''failed to marshal body: '' @ e)
           | Inr jsonBody \<Rightarrow> Inr (Some jsonBody)))"

definition doRequest ::
  "'w Client \<Rightarrow> string \<Rightarrow> string \<Rightarrow> gval option \<Rightarrow> 'w \<Rightarrow> (error + string) \<times> 'w" where
  "doRequest c method path body w =
     (case encodeBody c body of
        Inl e \<Rightarrow> (Inl e, w)
      | Inr bodyReader \<Rightarrow>
          (case newRequest c method (baseURL c @ path) bodyReader of
             Inl e \<Rightarrow> (Inl (''failed to create request: '' @ e), w)
           | Inr req \<Rightarrow> sendRequest c req w))"

declare natDigits.simps [simp del]

text \<open>Reading a decimal numeral back: the inverse of \<open>natDigits\<close>.\<close>

definition digitVal :: "char \<Rightarrow> nat" where
  "digitVal ch = of_char ch - 48"

definition parseNat :: "string \<Rightarrow> nat" where
  "parseNat s = foldl (\<lambda>a ch. 10 * a + digitVal ch) 0 s"

text \<open>A client whose server answers every request with 404 and the body \<^verbatim>\<open>not found\<close>.\<close>

definition notFoundClient :: "nat Client" where
  "notFoundClient =
     \<lparr>baseURL = ''http://localhost:3000'', apiKey = ''secret'',
      httpClient = (\<lambda>req w. (DoResponse 404 (Inr ''not found''), Suc w)),
      jsonMarshal = (\<lambda>v. Inr ''{}''),
      newRequest = (\<lambda>m u b. Inr \<lparr>reqMethod = m, reqURL = u, reqBody = b, reqHeader = Map.empty\<rparr>)\<rparr>"

text \<open>
  A client whose server answers every request with status 500 and then breaks the
  connection while the body is being read.
\<close>

definition brokenBodyClient :: "nat Client" where
  "brokenBodyClient =
     \<lparr>baseURL = ''http://localhost:3000'', apiKey = ''secret'',
      httpClient = (\<lambda>req w. (DoResponse 500 (Inl ''unexpected EOF''), Suc w)),
      jsonMarshal = (\<lambda>v. Inr ''{}''),
      newRequest = (\<lambda>m u b. Inr \<lparr>reqMethod = m, reqURL = u, reqBody = b, reqHeader = Map.empty\<rparr>)\<rparr>"

section \<open>Protocol types: \<^verbatim>\<open>internal/mcp/types.go\<close>\<close>

text \<open>
  \<^verbatim>\<open>Request.ID\<close> and \<^verbatim>\<open>Response.ID\<close> are \<^verbatim>\<open>json.RawMessage\<close>: the bytes of the
  identifier as they stood in the input, empty when the member is absent.
\<close>

record Request =
  ReqJSONRPC :: string
  ReqID :: string
  Method :: string
  Params :: gval

record ErrorData =
  Details :: string
  Cause :: string

record Error =
  Code :: int
  Message :: string
  Data :: "ErrorData option"

record ToolAnnotations =
  ReadOnlyHint :: bool
  DestructiveHint :: bool
  IdempotentHint :: bool
  OpenWorldHint :: bool

text \<open>
  A tool definition: its name, the declared properties with their JSON type, the required
  property names and the annotations.  The description texts of the tool and of its
  properties (and the enumerations of property values) are documentation strings and are
  not carried.
\<close>

record Tool =
  Name :: string
  Properties :: "(string \<times> string) list"
  Required :: "string list"
  Annotations :: "ToolAnnotations option"

record CallToolParams =
  CallName :: string
  Arguments :: gmap

record ContentBlock =
  Type :: string
  Text :: string

record CallToolResult =
  Content :: "ContentBlock list"
  IsError :: bool

record ToolsCapability =
  ListChanged :: bool

record ResourcesCapability =
  Subscribe :: bool
  ResListChanged :: bool

record Capabilities =
  CapTools :: "ToolsCapability option"
  CapResources :: "ResourcesCapability option"

record ServerInfo =
  ServerName :: string
  ServerVersion :: string

record InitializeResult =
  ProtocolVersion :: string
  InitCapabilities :: Capabilities
  InitServerInfo :: ServerInfo

record ListToolsResult =
  Tools :: "Tool list"

text \<open>
  What the dispatcher stores in \<^verbatim>\<open>Response.Result\<close> (an \<^verbatim>\<open>interface{}\<close>): the empty
  \<^verbatim>\<open>map[string]string{}\<close> of \<^verbatim>\<open>ping\<close>, or one of the three result structs.
\<close>

datatype ResultValue =
    EmptyObject
  | InitializeRes InitializeResult
  | ListToolsRes ListToolsResult
  | CallToolRes CallToolResult

record Response =
  JSONRPC :: string
  ID :: string
  Result :: "ResultValue option"
  Error :: "Error option"

definition ParseError :: int where "ParseError = - 32700"
definition InvalidRequest :: int where "InvalidRequest = - 32600"
definition MethodNotFound :: int where "MethodNotFound = - 32601"
definition InvalidParams :: int where "InvalidParams = - 32602"
definition InternalError :: int where "InternalError = - 32603"

section \<open>The tool registry: \<^verbatim>\<open>internal/tools/registry.go\<close>\<close>

subsection \<open>The capability the handlers call\<close>

text \<open>
  The methods of \<^verbatim>\<open>*grafana.Client\<close> that the handlers call, each with its arguments.  The
  registry's \<^verbatim>\<open>client\<close> answers such a call with a failure (\<open>Inl\<close>, the text of the
  error) or a value, and may change the world \<open>'w\<close> (the network and the remote server).
  A method that returns only an \<^verbatim>\<open>error\<close> answers \<open>Inr GNil\<close> on success.
\<close>

datatype ClientOp =
    GetHealth
  | SearchDashboards string "string list" "int list" string int
  | GetDashboard string
  | SaveDashboard gval
  | DeleteDashboard string
  | GetDatasources
  | GetDatasource string
  | CreateDatasource gval
  | UpdateDatasource string gval
  | DeleteDatasource string
  | GetFolders
  | GetFolder string
  | CreateFolder string string
  | UpdateFolder string string int
  | DeleteFolder string
  | GetAlertRules
  | GetAlertRule string
  | CreateAlertRule gval
  | UpdateAlertRule string gval
  | DeleteAlertRule string
  | GetAnnotations int int string int "string list" int
  | CreateAnnotation gval
  | UpdateAnnotation int gval
  | DeleteAnnotation int
  | Query gval
  | GetCurrentOrg
  | GetOrgUsers
  | GetCurrentUser
  | GetTeams string int int
  | GetTeam int
  | CreateTeam string string
  | DeleteTeam int

type_synonym 'w Capability = "ClientOp \<Rightarrow> 'w \<Rightarrow> (error + gval) \<times> 'w"

text \<open>
  The library calls of the registry and of the dispatcher: \<^verbatim>\<open>json.MarshalIndent\<close> of a
  result, \<^verbatim>\<open>time.Now().UnixMilli()\<close>, \<^verbatim>\<open>json.Unmarshal\<close> of an input line into a
  \<^verbatim>\<open>Request\<close>, \<^verbatim>\<open>json.Marshal\<close> of \<^verbatim>\<open>req.Params\<close> and \<^verbatim>\<open>json.Unmarshal\<close> of the outcome
  into \<^verbatim>\<open>CallToolParams\<close>, and \<^verbatim>\<open>json.Marshal\<close> of a \<^verbatim>\<open>Response\<close>.
\<close>

record 'w Lib =
  MarshalIndent :: "gval \<Rightarrow> error + string"
  UnixMilli :: "'w \<Rightarrow> int"
  UnmarshalRequest :: "string \<Rightarrow> error + Request"
  MarshalParams :: "gval \<Rightarrow> error + string"
  UnmarshalParams :: "string \<Rightarrow> error + CallToolParams"
  MarshalResponse :: "Response \<Rightarrow> error + string"

type_synonym 'w ToolOutcome = "(CallToolResult \<times> error option) \<times> 'w"

type_synonym 'w ToolHandler = "gmap \<Rightarrow> 'w \<Rightarrow> 'w ToolOutcome"

record 'w Registry =
  client :: "'w Capability"
  tools :: "string \<rightharpoonup> 'w ToolHandler"

subsection \<open>Helper functions\<close>

definition errorResult :: "string \<Rightarrow> CallToolResult" where
  "errorResult msg = \<lparr>Content = [\<lparr>Type = ''text'', Text = msg\<rparr>], IsError = True\<rparr>"

definition jsonResult :: "'w Lib \<Rightarrow> gval \<Rightarrow> CallToolResult \<times> error option" where
  "jsonResult L v =
     (case MarshalIndent L v of
        Inl err \<Rightarrow> (errorResult (''Failed to marshal result: '' @ err), None)
      | Inr data \<Rightarrow> (\<lparr>Content = [\<lparr>Type = ''text'', Text = data\<rparr>], IsError = False\<rparr>, None))"

definition getString :: "gmap \<Rightarrow> string \<Rightarrow> string" where
  "getString args key =
     (case map_of args key of
        Some (GStr s) \<Rightarrow> s
      | _ \<Rightarrow> '''')"

text \<open>
  The conversion \<^verbatim>\<open>int64(n)\<close> of a \<^verbatim>\<open>float64\<close>: the fraction is discarded (truncation
  towards zero).  For a value outside the range of \<^verbatim>\<open>int64\<close> Go leaves the result to the
  implementation; the integers here are unbounded.
\<close>

definition int64_of_float :: "rat \<Rightarrow> int" where
  "int64_of_float n = (if 0 \<le> n then \<lfloor>n\<rfloor> else \<lceil>n\<rceil>)"

definition getInt64 :: "gmap \<Rightarrow> string \<Rightarrow> int" where
  "getInt64 args key =
     (case map_of args key of
        Some (GFloat n) \<Rightarrow> int64_of_float n
      | Some (GInt64 n) \<Rightarrow> n
      | Some (GInt n) \<Rightarrow> n
      | _ \<Rightarrow> 0)"

definition getInt :: "gmap \<Rightarrow> string \<Rightarrow> int" where
  "getInt args key = getInt64 args key"

definition getBool :: "gmap \<Rightarrow> string \<Rightarrow> bool" where
  "getBool args key =
     (case map_of args key of
        Some (GBool b) \<Rightarrow> b
      | _ \<Rightarrow> False)"

text \<open>A \<^verbatim>\<open>nil\<close> slice is the empty list; an element that is not a string stays \<^verbatim>\<open>""\<close>.\<close>

definition getStringSlice :: "gmap \<Rightarrow> string \<Rightarrow> string list" where
  "getStringSlice args key =
     (case map_of args key of
        Some (GArr arr) \<Rightarrow> map (\<lambda>item. case item of GStr s \<Rightarrow> s | _ \<Rightarrow> '''') arr
      | _ \<Rightarrow> [])"

text \<open>A \<^verbatim>\<open>[]string\<close> as a value, and the assignment \<^verbatim>\<open>x.Field = v\<close> to a struct value.\<close>

definition strs :: "string list \<Rightarrow> gval" where
  "strs xs = GArr (map GStr xs)"

fun setField :: "string \<Rightarrow> gval \<Rightarrow> gval \<Rightarrow> gval" where
  "setField k v (GObj fs) = GObj ((k, v) # filter (\<lambda>kv. fst kv \<noteq> k) fs)"
| "setField k v x = x"

text \<open>The string-valued entries of a \<^verbatim>\<open>map[string]interface{}\<close>, as a \<^verbatim>\<open>map[string]string\<close>.\<close>

definition stringEntries :: "gmap \<Rightarrow> gval" where
  "stringEntries m = GObj (filter (\<lambda>kv. case snd kv of GStr s \<Rightarrow> True | _ \<Rightarrow> False) m)"

subsection \<open>Tool definitions\<close>

definition grafanaHealthTool :: Tool where
  "grafanaHealthTool =
     \<lparr>Name = ''grafana_health'',
      Properties = [],
      Required = [],
      Annotations =
        Some \<lparr>ReadOnlyHint = True, DestructiveHint = False, IdempotentHint = False, OpenWorldHint = True\<rparr>\<rparr>"

definition grafanaSearchDashboardsTool :: Tool where
  "grafanaSearchDashboardsTool =
     \<lparr>Name = ''grafana_search_dashboards'',
      Properties = [(''query'', ''string''), (''tags'', ''array''), (''type'', ''string''),
        (''limit'', ''integer'')],
      Required = [],
      Annotations =
        Some \<lparr>ReadOnlyHint = True, DestructiveHint = False, IdempotentHint = False, OpenWorldHint = True\<rparr>\<rparr>"

definition grafanaGetDashboardTool :: Tool where
  "grafanaGetDashboardTool =
     \<lparr>Name = ''grafana_get_dashboard'',
      Properties = [(''uid'', ''string'')],
      Required = [''uid''],
      Annotations =
        Some \<lparr>ReadOnlyHint = True, DestructiveHint = False, IdempotentHint = False, OpenWorldHint = True\<rparr>\<rparr>"

definition grafanaCreateDashboardTool :: Tool where
  "grafanaCreateDashboardTool =
     \<lparr>Name = ''grafana_create_dashboard'',
      Properties = [(''title'', ''string''), (''tags'', ''array''), (''folder_uid'', ''string''),
        (''panels'', ''array''), (''refresh'', ''string''), (''time_from'', ''string''),
        (''time_to'', ''string'')],
      Required = [''title''],
      Annotations =
        Some \<lparr>ReadOnlyHint = False, DestructiveHint = False, IdempotentHint = False, OpenWorldHint = True\<rparr>\<rparr>"

definition grafanaUpdateDashboardTool :: Tool where
  "grafanaUpdateDashboardTool =
     \<lparr>Name = ''grafana_update_dashboard'',
      Properties = [(''uid'', ''string''), (''title'', ''string''), (''tags'', ''array''),
        (''panels'', ''array''), (''folder_uid'', ''string''), (''message'', ''string''),
        (''overwrite'', ''boolean'')],
      Required = [''uid''],
      Annotations =
        Some \<lparr>ReadOnlyHint = False, DestructiveHint = True, IdempotentHint = False, OpenWorldHint = True\<rparr>\<rparr>"

definition grafanaDeleteDashboardTool :: Tool where
  "grafanaDeleteDashboardTool =
     \<lparr>Name = ''grafana_delete_dashboard'',
      Properties = [(''uid'', ''string'')],
      Required = [''uid''],
      Annotations =
        Some \<lparr>ReadOnlyHint = False, DestructiveHint = True, IdempotentHint = False, OpenWorldHint = True\<rparr>\<rparr>"

definition grafanaListDatasourcesTool :: Tool where
  "grafanaListDatasourcesTool =
     \<lparr>Name = ''grafana_list_datasources'',
      Properties = [],
      Required = [],
      Annotations =
        Some \<lparr>ReadOnlyHint = True, DestructiveHint = False, IdempotentHint = False, OpenWorldHint = True\<rparr>\<rparr>"

definition grafanaGetDatasourceTool :: Tool where
  "grafanaGetDatasourceTool =
     \<lparr>Name = ''grafana_get_datasource'',
      Properties = [(''uid'', ''string'')],
      Required = [''uid''],
      Annotations =
        Some \<lparr>ReadOnlyHint = True, DestructiveHint = False, IdempotentHint = False, OpenWorldHint = True\<rparr>\<rparr>"

definition grafanaCreateDatasourceTool :: Tool where
  "grafanaCreateDatasourceTool =
     \<lparr>Name = ''grafana_create_datasource'',
      Properties = [(''name'', ''string''), (''type'', ''string''), (''url'', ''string''),
        (''access'', ''string''), (''is_default'', ''boolean''), (''json_data'', ''object'')],
      Required = [''name'', ''type'', ''url''],
      Annotations =
        Some \<lparr>ReadOnlyHint = False, DestructiveHint = False, IdempotentHint = False, OpenWorldHint = True\<rparr>\<rparr>"

definition grafanaUpdateDatasourceTool :: Tool where
  "grafanaUpdateDatasourceTool =
     \<lparr>Name = ''grafana_update_datasource'',
      Properties = [(''uid'', ''string''), (''name'', ''string''), (''url'', ''string''),
        (''is_default'', ''boolean''), (''json_data'', ''object'')],
      Required = [''uid''],
      Annotations =
        Some \<lparr>ReadOnlyHint = False, DestructiveHint = True, IdempotentHint = False, OpenWorldHint = True\<rparr>\<rparr>"

definition grafanaDeleteDatasourceTool :: Tool where
  "grafanaDeleteDatasourceTool =
     \<lparr>Name = ''grafana_delete_datasource'',
      Properties = [(''uid'', ''string'')],
      Required = [''uid''],
      Annotations =
        Some \<lparr>ReadOnlyHint = False, DestructiveHint = True, IdempotentHint = False, OpenWorldHint = True\<rparr>\<rparr>"

definition grafanaListFoldersTool :: Tool where
  "grafanaListFoldersTool =
     \<lparr>Name = ''grafana_list_folders'',
      Properties = [],
      Required = [],
      Annotations =
        Some \<lparr>ReadOnlyHint = True, DestructiveHint = False, IdempotentHint = False, OpenWorldHint = True\<rparr>\<rparr>"

definition grafanaGetFolderTool :: Tool where
  "grafanaGetFolderTool =
     \<lparr>Name = ''grafana_get_folder'',
      Properties = [(''uid'', ''string'')],
      Required = [''uid''],
      Annotations =
        Some \<lparr>ReadOnlyHint = True, DestructiveHint = False, IdempotentHint = False, OpenWorldHint = True\<rparr>\<rparr>"

definition grafanaCreateFolderTool :: Tool where
  "grafanaCreateFolderTool =
     \<lparr>Name = ''grafana_create_folder'',
      Properties = [(''title'', ''string''), (''uid'', ''string'')],
      Required = [''title''],
      Annotations =
        Some \<lparr>ReadOnlyHint = False, DestructiveHint = False, IdempotentHint = False, OpenWorldHint = True\<rparr>\<rparr>"

definition grafanaUpdateFolderTool :: Tool where
  "grafanaUpdateFolderTool =
     \<lparr>Name = ''grafana_update_folder'',
      Properties = [(''uid'', ''string''), (''title'', ''string''), (''version'', ''integer'')],
      Required = [''uid'', ''title'', ''version''],
      Annotations =
        Some \<lparr>ReadOnlyHint = False, DestructiveHint = True, IdempotentHint = False, OpenWorldHint = True\<rparr>\<rparr>"

definition grafanaDeleteFolderTool :: Tool where
  "grafanaDeleteFolderTool =
     \<lparr>Name = ''grafana_delete_folder'',
      Properties = [(''uid'', ''string'')],
      Required = [''uid''],
      Annotations =
        Some \<lparr>ReadOnlyHint = False, DestructiveHint = True, IdempotentHint = False, OpenWorldHint = True\<rparr>\<rparr>"

definition grafanaListAlertRulesTool :: Tool where
  "grafanaListAlertRulesTool =
     \<lparr>Name = ''grafana_list_alert_rules'',
      Properties = [],
      Required = [],
      Annotations =
        Some \<lparr>ReadOnlyHint = True, DestructiveHint = False, IdempotentHint = False, OpenWorldHint = True\<rparr>\<rparr>"

definition grafanaGetAlertRuleTool :: Tool where
  "grafanaGetAlertRuleTool =
     \<lparr>Name = ''grafana_get_alert_rule'',
      Properties = [(''uid'', ''string'')],
      Required = [''uid''],
      Annotations =
        Some \<lparr>ReadOnlyHint = True, DestructiveHint = False, IdempotentHint = False, OpenWorldHint = True\<rparr>\<rparr>"

definition grafanaCreateAlertRuleTool :: Tool where
  "grafanaCreateAlertRuleTool =
     \<lparr>Name = ''grafana_create_alert_rule'',
      Properties = [(''title'', ''string''), (''folder_uid'', ''string''),
        (''rule_group'', ''string''), (''condition'', ''string''), (''queries'', ''array''),
        (''for_duration'', ''string''), (''no_data_state'', ''string''),
        (''exec_err_state'', ''string''), (''labels'', ''object''),
        (''annotations'', ''object'')],
      Required = [''title'', ''folder_uid'', ''rule_group'', ''condition'', ''queries''],
      Annotations =
        Some \<lparr>ReadOnlyHint = False, DestructiveHint = False, IdempotentHint = False, OpenWorldHint = True\<rparr>\<rparr>"

definition grafanaUpdateAlertRuleTool :: Tool where
  "grafanaUpdateAlertRuleTool =
     \<lparr>Name = ''grafana_update_alert_rule'',
      Properties = [(''uid'', ''string''), (''title'', ''string''), (''queries'', ''array''),
        (''for_duration'', ''string''), (''no_data_state'', ''string''),
        (''exec_err_state'', ''string''), (''labels'', ''object''),
        (''annotations'', ''object''), (''is_paused'', ''boolean'')],
      Required = [''uid''],
      Annotations =
        Some \<lparr>ReadOnlyHint = False, DestructiveHint = True, IdempotentHint = False, OpenWorldHint = True\<rparr>\<rparr>"

definition grafanaDeleteAlertRuleTool :: Tool where
  "grafanaDeleteAlertRuleTool =
     \<lparr>Name = ''grafana_delete_alert_rule'',
      Properties = [(''uid'', ''string'')],
      Required = [''uid''],
      Annotations =
        Some \<lparr>ReadOnlyHint = False, DestructiveHint = True, IdempotentHint = False, OpenWorldHint = True\<rparr>\<rparr>"

definition grafanaListAnnotationsTool :: Tool where
  "grafanaListAnnotationsTool =
     \<lparr>Name = ''grafana_list_annotations'',
      Properties = [(''from'', ''integer''), (''to'', ''integer''),
        (''dashboard_uid'', ''string''), (''panel_id'', ''integer''), (''tags'', ''array''),
        (''limit'', ''integer'')],
      Required = [],
      Annotations =
        Some \<lparr>ReadOnlyHint = True, DestructiveHint = False, IdempotentHint = False, OpenWorldHint = True\<rparr>\<rparr>"

definition grafanaCreateAnnotationTool :: Tool where
  "grafanaCreateAnnotationTool =
     \<lparr>Name = ''grafana_create_annotation'',
      Properties = [(''text'', ''string''), (''time'', ''integer''), (''time_end'', ''integer''),
        (''dashboard_uid'', ''string''), (''panel_id'', ''integer''), (''tags'', ''array'')],
      Required = [''text''],
      Annotations =
        Some \<lparr>ReadOnlyHint = False, DestructiveHint = False, IdempotentHint = False, OpenWorldHint = True\<rparr>\<rparr>"

definition grafanaUpdateAnnotationTool :: Tool where
  "grafanaUpdateAnnotationTool =
     \<lparr>Name = ''grafana_update_annotation'',
      Properties = [(''id'', ''integer''), (''text'', ''string''), (''time'', ''integer''),
        (''time_end'', ''integer''), (''tags'', ''array'')],
      Required = [''id''],
      Annotations =
        Some \<lparr>ReadOnlyHint = False, DestructiveHint = True, IdempotentHint = False, OpenWorldHint = True\<rparr>\<rparr>"

definition grafanaDeleteAnnotationTool :: Tool where
  "grafanaDeleteAnnotationTool =
     \<lparr>Name = ''grafana_delete_annotation'',
      Properties = [(''id'', ''integer'')],
      Required = [''id''],
      Annotations =
        Some \<lparr>ReadOnlyHint = False, DestructiveHint = True, IdempotentHint = False, OpenWorldHint = True\<rparr>\<rparr>"

definition grafanaQueryTool :: Tool where
  "grafanaQueryTool =
     \<lparr>Name = ''grafana_query'',
      Properties = [(''datasource_uid'', ''string''), (''datasource_type'', ''string''),
        (''query'', ''string''), (''from'', ''string''), (''to'', ''string''),
        (''max_data_points'', ''integer''), (''interval_ms'', ''integer'')],
      Required = [''datasource_uid'', ''datasource_type'', ''query''],
      Annotations =
        Some \<lparr>ReadOnlyHint = True, DestructiveHint = False, IdempotentHint = False, OpenWorldHint = True\<rparr>\<rparr>"

definition grafanaGetOrgTool :: Tool where
  "grafanaGetOrgTool =
     \<lparr>Name = ''grafana_get_org'',
      Properties = [],
      Required = [],
      Annotations =
        Some \<lparr>ReadOnlyHint = True, DestructiveHint = False, IdempotentHint = False, OpenWorldHint = True\<rparr>\<rparr>"

definition grafanaListOrgUsersTool :: Tool where
  "grafanaListOrgUsersTool =
     \<lparr>Name = ''grafana_list_org_users'',
      Properties = [],
      Required = [],
      Annotations =
        Some \<lparr>ReadOnlyHint = True, DestructiveHint = False, IdempotentHint = False, OpenWorldHint = True\<rparr>\<rparr>"

definition grafanaGetCurrentUserTool :: Tool where
  "grafanaGetCurrentUserTool =
     \<lparr>Name = ''grafana_get_current_user'',
      Properties = [],
      Required = [],
      Annotations =
        Some \<lparr>ReadOnlyHint = True, DestructiveHint = False, IdempotentHint = False, OpenWorldHint = True\<rparr>\<rparr>"

definition grafanaListTeamsTool :: Tool where
  "grafanaListTeamsTool =
     \<lparr>Name = ''grafana_list_teams'',
      Properties = [(''query'', ''string''), (''page'', ''integer''), (''per_page'', ''integer'')],
      Required = [],
      Annotations =
        Some \<lparr>ReadOnlyHint = True, DestructiveHint = False, IdempotentHint = False, OpenWorldHint = True\<rparr>\<rparr>"

definition grafanaGetTeamTool :: Tool where
  "grafanaGetTeamTool =
     \<lparr>Name = ''grafana_get_team'',
      Properties = [(''id'', ''integer'')],
      Required = [''id''],
      Annotations =
        Some \<lparr>ReadOnlyHint = True, DestructiveHint = False, IdempotentHint = False, OpenWorldHint = True\<rparr>\<rparr>"

definition grafanaCreateTeamTool :: Tool where
  "grafanaCreateTeamTool =
     \<lparr>Name = ''grafana_create_team'',
      Properties = [(''name'', ''string''), (''email'', ''string'')],
      Required = [''name''],
      Annotations =
        Some \<lparr>ReadOnlyHint = False, DestructiveHint = False, IdempotentHint = False, OpenWorldHint = True\<rparr>\<rparr>"

definition grafanaDeleteTeamTool :: Tool where
  "grafanaDeleteTeamTool =
     \<lparr>Name = ''grafana_delete_team'',
      Properties = [(''id'', ''integer'')],
      Required = [''id''],
      Annotations =
        Some \<lparr>ReadOnlyHint = False, DestructiveHint = True, IdempotentHint = False, OpenWorldHint = True\<rparr>\<rparr>"

text \<open>\<^verbatim>\<open>GetTools\<close> returns all tool definitions, in this order.\<close>

definition GetTools :: "'w Registry \<Rightarrow> Tool list" where
  "GetTools r =
     [grafanaHealthTool,
      grafanaSearchDashboardsTool, grafanaGetDashboardTool, grafanaCreateDashboardTool,
      grafanaUpdateDashboardTool, grafanaDeleteDashboardTool,
      grafanaListDatasourcesTool, grafanaGetDatasourceTool, grafanaCreateDatasourceTool,
      grafanaUpdateDatasourceTool, grafanaDeleteDatasourceTool,
      grafanaListFoldersTool, grafanaGetFolderTool, grafanaCreateFolderTool,
      grafanaUpdateFolderTool, grafanaDeleteFolderTool,
      grafanaListAlertRulesTool, grafanaGetAlertRuleTool, grafanaCreateAlertRuleTool,
      grafanaUpdateAlertRuleTool, grafanaDeleteAlertRuleTool,
      grafanaListAnnotationsTool, grafanaCreateAnnotationTool, grafanaUpdateAnnotationTool,
      grafanaDeleteAnnotationTool,
      grafanaQueryTool,
      grafanaGetOrgTool, grafanaListOrgUsersTool,
      grafanaGetCurrentUserTool,
      grafanaListTeamsTool, grafanaGetTeamTool, grafanaCreateTeamTool, grafanaDeleteTeamTool]"


subsection \<open>Handler implementations\<close>

text \<open>
  Each handler takes the arguments and the world and returns the tool result, the Go
  \<^verbatim>\<open>error\<close> (\<open>None\<close> is \<^verbatim>\<open>nil\<close>) and the world after the client calls it made.
\<close>

definition handleHealth :: "'w Lib \<Rightarrow> 'w Capability \<Rightarrow> 'w ToolHandler" where
  "handleHealth L c args w =
     (case c GetHealth w of
        (Inl err, w') \<Rightarrow> ((errorResult (''Failed to get health: '' @ err), None), w')
      | (Inr health, w') \<Rightarrow> (jsonResult L health, w'))"

definition handleSearchDashboards :: "'w Lib \<Rightarrow> 'w Capability \<Rightarrow> 'w ToolHandler" where
  "handleSearchDashboards L c args w =
     (let query = getString args ''query'';
          tags = getStringSlice args ''tags'';
          dashType = getString args ''type'';
          limit0 = getInt args ''limit'';
          limit = (if limit0 = 0 then 50 else limit0)
      in case c (SearchDashboards query tags [] dashType limit) w of
           (Inl err, w') \<Rightarrow> ((errorResult (''Search failed: '' @ err), None), w')
         | (Inr results, w') \<Rightarrow> (jsonResult L results, w'))"

definition handleGetDashboard :: "'w Lib \<Rightarrow> 'w Capability \<Rightarrow> 'w ToolHandler" where
  "handleGetDashboard L c args w =
     (let uid = getString args ''uid''
      in if uid = '''' then ((errorResult ''uid is required'', None), w)
         else case c (GetDashboard uid) w of
                (Inl err, w') \<Rightarrow> ((errorResult (''Failed to get dashboard: '' @ err), None), w')
              | (Inr dashboard, w') \<Rightarrow> (jsonResult L dashboard, w'))"

text \<open>The panels of \<^verbatim>\<open>handleCreateDashboard\<close>: one per element that is an object.\<close>

definition panelsOf :: "gval list \<Rightarrow> gval list" where
  "panelsOf panelsArr =
     concat (map (\<lambda>p. case p of
                         GObj pm \<Rightarrow> [GObj [(''Type'', GStr (getString pm ''type'')),
                                           (''Title'', GStr (getString pm ''title''))]]
                       | _ \<Rightarrow> []) panelsArr)"

definition handleCreateDashboard :: "'w Lib \<Rightarrow> 'w Capability \<Rightarrow> 'w ToolHandler" where
  "handleCreateDashboard L c args w =
     (let title = getString args ''title''
      in if title = '''' then ((errorResult ''title is required'', None), w)
         else
           let dashboard0 = GObj [(''Title'', GStr title),
                                  (''Tags'', strs (getStringSlice args ''tags'')),
                                  (''SchemaVersion'', GInt 39),
                                  (''Refresh'', GStr (getString args ''refresh''))];
               timeFrom = getString args ''time_from'';
               dashboard1 =
                 (if timeFrom \<noteq> '''' then
                    setField ''Time'' (GObj [(''From'', GStr timeFrom),
                                            (''To'', GStr (getString args ''time_to''))]) dashboard0
                  else dashboard0);
               dashboard =
                 (case map_of args ''panels'' of
                    Some (GArr panelsArr) \<Rightarrow> setField ''Panels'' (GArr (panelsOf panelsArr)) dashboard1
                  | _ \<Rightarrow> dashboard1);
               req = GObj [(''Dashboard'', dashboard),
                           (''FolderUID'', GStr (getString args ''folder_uid'')),
                           (''Message'', GStr ''Created via MCP'')]
           in case c (SaveDashboard req) w of
                (Inl err, w') \<Rightarrow> ((errorResult (''Failed to create dashboard: '' @ err), None), w')
              | (Inr result, w') \<Rightarrow> (jsonResult L result, w'))"

definition handleUpdateDashboard :: "'w Lib \<Rightarrow> 'w Capability \<Rightarrow> 'w ToolHandler" where
  "handleUpdateDashboard L c args w =
     (let uid = getString args ''uid''
      in if uid = '''' then ((errorResult ''uid is required'', None), w)
         else case c (GetDashboard uid) w of
                (Inl err, w1) \<Rightarrow> ((errorResult (''Failed to get dashboard: '' @ err), None), w1)
              | (Inr existing0, w1) \<Rightarrow>
                  let title = getString args ''title'';
                      existing1 = (if title \<noteq> '''' then setField ''Title'' (GStr title) existing0
                                   else existing0);
                      tags = getStringSlice args ''tags'';
                      existing = (if length tags > 0 then setField ''Tags'' (strs tags) existing1
                                  else existing1);
                      req = GObj [(''Dashboard'', existing),
                                  (''FolderUID'', GStr (getString args ''folder_uid'')),
                                  (''Message'', GStr (getString args ''message'')),
                                  (''Overwrite'', GBool (getBool args ''overwrite''))]
                  in case c (SaveDashboard req) w1 of
                       (Inl err, w2) \<Rightarrow>
                         ((errorResult (''Failed to update dashboard: '' @ err), None), w2)
                     | (Inr result, w2) \<Rightarrow> (jsonResult L result, w2))"

definition handleDeleteDashboard :: "'w Lib \<Rightarrow> 'w Capability \<Rightarrow> 'w ToolHandler" where
  "handleDeleteDashboard L c args w =
     (let uid = getString args ''uid''
      in if uid = '''' then ((errorResult ''uid is required'', None), w)
         else case c (DeleteDashboard uid) w of
                (Inl err, w') \<Rightarrow> ((errorResult (''Failed to delete dashboard: '' @ err), None), w')
              | (Inr ok, w') \<Rightarrow>
                  (jsonResult L (GObj [(''status'', GStr ''deleted''), (''uid'', GStr uid)]), w'))"

definition handleListDatasources :: "'w Lib \<Rightarrow> 'w Capability \<Rightarrow> 'w ToolHandler" where
  "handleListDatasources L c args w =
     (case c GetDatasources w of
        (Inl err, w') \<Rightarrow> ((errorResult (''Failed to list datasources: '' @ err), None), w')
      | (Inr datasources, w') \<Rightarrow> (jsonResult L datasources, w'))"

definition handleGetDatasource :: "'w Lib \<Rightarrow> 'w Capability \<Rightarrow> 'w ToolHandler" where
  "handleGetDatasource L c args w =
     (let uid = getString args ''uid''
      in if uid = '''' then ((errorResult ''uid is required'', None), w)
         else case c (GetDatasource uid) w of
                (Inl err, w') \<Rightarrow> ((errorResult (''Failed to get datasource: '' @ err), None), w')
              | (Inr ds, w') \<Rightarrow> (jsonResult L ds, w'))"

definition handleCreateDatasource :: "'w Lib \<Rightarrow> 'w Capability \<Rightarrow> 'w ToolHandler" where
  "handleCreateDatasource L c args w =
     (let name = getString args ''name'';
          dsType = getString args ''type'';
          dsURL = getString args ''url''
      in if name = '''' \<or> dsType = '''' \<or> dsURL = '''' then
           ((errorResult ''name, type, and url are required'', None), w)
         else
           let access0 = getString args ''access'';
               access = (if access0 = '''' then ''proxy'' else access0);
               ds0 = GObj [(''Name'', GStr name),
                           (''Type'', GStr dsType),
                           (''URL'', GStr dsURL),
                           (''Access'', GStr access),
                           (''IsDefault'', GBool (getBool args ''is_default''))];
               ds = (case map_of args ''json_data'' of
                       Some (GObj jsonData) \<Rightarrow> setField ''JSONData'' (GObj jsonData) ds0
                     | _ \<Rightarrow> ds0)
           in case c (CreateDatasource ds) w of
                (Inl err, w') \<Rightarrow> ((errorResult (''Failed to create datasource: '' @ err), None), w')
              | (Inr result, w') \<Rightarrow> (jsonResult L result, w'))"

definition handleUpdateDatasource :: "'w Lib \<Rightarrow> 'w Capability \<Rightarrow> 'w ToolHandler" where
  "handleUpdateDatasource L c args w =
     (let uid = getString args ''uid''
      in if uid = '''' then ((errorResult ''uid is required'', None), w)
         else case c (GetDatasource uid) w of
                (Inl err, w1) \<Rightarrow> ((errorResult (''Failed to get datasource: '' @ err), None), w1)
              | (Inr existing0, w1) \<Rightarrow>
                  let name = getString args ''name'';
                      existing1 = (if name \<noteq> '''' then setField ''Name'' (GStr name) existing0
                                   else existing0);
                      dsURL = getString args ''url'';
                      existing2 = (if dsURL \<noteq> '''' then setField ''URL'' (GStr dsURL) existing1
                                   else existing1);
                      existing =
                        (case map_of args ''is_default'' of
                           Some v \<Rightarrow> setField ''IsDefault'' (GBool (getBool args ''is_default'')) existing2
                         | None \<Rightarrow> existing2)
                  in case c (UpdateDatasource uid existing) w1 of
                       (Inl err, w2) \<Rightarrow>
                         ((errorResult (''Failed to update datasource: '' @ err), None), w2)
                     | (Inr result, w2) \<Rightarrow> (jsonResult L result, w2))"

definition handleDeleteDatasource :: "'w Lib \<Rightarrow> 'w Capability \<Rightarrow> 'w ToolHandler" where
  "handleDeleteDatasource L c args w =
     (let uid = getString args ''uid''
      in if uid = '''' then ((errorResult ''uid is required'', None), w)
         else case c (DeleteDatasource uid) w of
                (Inl err, w') \<Rightarrow> ((errorResult (''Failed to delete datasource: '' @ err), None), w')
              | (Inr ok, w') \<Rightarrow>
                  (jsonResult L (GObj [(''status'', GStr ''deleted''), (''uid'', GStr uid)]), w'))"

definition handleListFolders :: "'w Lib \<Rightarrow> 'w Capability \<Rightarrow> 'w ToolHandler" where
  "handleListFolders L c args w =
     (case c GetFolders w of
        (Inl err, w') \<Rightarrow> ((errorResult (''Failed to list folders: '' @ err), None), w')
      | (Inr folders, w') \<Rightarrow> (jsonResult L folders, w'))"

definition handleGetFolder :: "'w Lib \<Rightarrow> 'w Capability \<Rightarrow> 'w ToolHandler" where
  "handleGetFolder L c args w =
     (let uid = getString args ''uid''
      in if uid = '''' then ((errorResult ''uid is required'', None), w)
         else case c (GetFolder uid) w of
                (Inl err, w') \<Rightarrow> ((errorResult (''Failed to get folder: '' @ err), None), w')
              | (Inr folder, w') \<Rightarrow> (jsonResult L folder, w'))"

definition handleCreateFolder :: "'w Lib \<Rightarrow> 'w Capability \<Rightarrow> 'w ToolHandler" where
  "handleCreateFolder L c args w =
     (let title = getString args ''title''
      in if title = '''' then ((errorResult ''title is required'', None), w)
         else case c (CreateFolder title (getString args ''uid'')) w of
                (Inl err, w') \<Rightarrow> ((errorResult (''Failed to create folder: '' @ err), None), w')
              | (Inr folder, w') \<Rightarrow> (jsonResult L folder, w'))"

definition handleUpdateFolder :: "'w Lib \<Rightarrow> 'w Capability \<Rightarrow> 'w ToolHandler" where
  "handleUpdateFolder L c args w =
     (let uid = getString args ''uid'';
          title = getString args ''title'';
          version = getInt args ''version''
      in if uid = '''' \<or> title = '''' \<or> version = 0 then
           ((errorResult ''uid, title, and version are required'', None), w)
         else case c (UpdateFolder uid title version) w of
                (Inl err, w') \<Rightarrow> ((errorResult (''Failed to update folder: '' @ err), None), w')
              | (Inr folder, w') \<Rightarrow> (jsonResult L folder, w'))"

definition handleDeleteFolder :: "'w Lib \<Rightarrow> 'w Capability \<Rightarrow> 'w ToolHandler" where
  "handleDeleteFolder L c args w =
     (let uid = getString args ''uid''
      in if uid = '''' then ((errorResult ''uid is required'', None), w)
         else case c (DeleteFolder uid) w of
                (Inl err, w') \<Rightarrow> ((errorResult (''Failed to delete folder: '' @ err), None), w')
              | (Inr ok, w') \<Rightarrow>
                  (jsonResult L (GObj [(''status'', GStr ''deleted''), (''uid'', GStr uid)]), w'))"

definition handleListAlertRules :: "'w Lib \<Rightarrow> 'w Capability \<Rightarrow> 'w ToolHandler" where
  "handleListAlertRules L c args w =
     (case c GetAlertRules w of
        (Inl err, w') \<Rightarrow> ((errorResult (''Failed to list alert rules: '' @ err), None), w')
      | (Inr rules, w') \<Rightarrow> (jsonResult L rules, w'))"

definition handleGetAlertRule :: "'w Lib \<Rightarrow> 'w Capability \<Rightarrow> 'w ToolHandler" where
  "handleGetAlertRule L c args w =
     (let uid = getString args ''uid''
      in if uid = '''' then ((errorResult ''uid is required'', None), w)
         else case c (GetAlertRule uid) w of
                (Inl err, w') \<Rightarrow> ((errorResult (''Failed to get alert rule: '' @ err), None), w')
              | (Inr rule, w') \<Rightarrow> (jsonResult L rule, w'))"

definition handleCreateAlertRule :: "'w Lib \<Rightarrow> 'w Capability \<Rightarrow> 'w ToolHandler" where
  "handleCreateAlertRule L c args w =
     (let title = getString args ''title'';
          folderUID = getString args ''folder_uid'';
          ruleGroup = getString args ''rule_group'';
          condition = getString args ''condition''
      in if title = '''' \<or> folderUID = '''' \<or> ruleGroup = '''' \<or> condition = '''' then
           ((errorResult ''title, folder_uid, rule_group, and condition are required'', None), w)
         else
           let rule0 = GObj [(''Title'', GStr title),
                             (''FolderUID'', GStr folderUID),
                             (''RuleGroup'', GStr ruleGroup),
                             (''Condition'', GStr condition),
                             (''NoDataState'', GStr (getString args ''no_data_state'')),
                             (''ExecErrState'', GStr (getString args ''exec_err_state'')),
                             (''For'', GStr (getString args ''for_duration''))];
               rule1 = (case map_of args ''labels'' of
                          Some (GObj labels) \<Rightarrow> setField ''Labels'' (stringEntries labels) rule0
                        | _ \<Rightarrow> rule0);
               rule = (case map_of args ''annotations'' of
                         Some (GObj annotations) \<Rightarrow>
                           setField ''Annotations'' (stringEntries annotations) rule1
                       | _ \<Rightarrow> rule1)
           in case c (CreateAlertRule rule) w of
                (Inl err, w') \<Rightarrow> ((errorResult (''Failed to create alert rule: '' @ err), None), w')
              | (Inr result, w') \<Rightarrow> (jsonResult L result, w'))"

definition handleUpdateAlertRule :: "'w Lib \<Rightarrow> 'w Capability \<Rightarrow> 'w ToolHandler" where
  "handleUpdateAlertRule L c args w =
     (let uid = getString args ''uid''
      in if uid = '''' then ((errorResult ''uid is required'', None), w)
         else case c (GetAlertRule uid) w of
                (Inl err, w1) \<Rightarrow> ((errorResult (''Failed to get alert rule: '' @ err), None), w1)
              | (Inr existing0, w1) \<Rightarrow>
                  let title = getString args ''title'';
                      existing1 = (if title \<noteq> '''' then setField ''Title'' (GStr title) existing0
                                   else existing0);
                      forDuration = getString args ''for_duration'';
                      existing2 = (if forDuration \<noteq> '''' then
                                     setField ''For'' (GStr forDuration) existing1
                                   else existing1);
                      noDataState = getString args ''no_data_state'';
                      existing3 = (if noDataState \<noteq> '''' then
                                     setField ''NoDataState'' (GStr noDataState) existing2
                                   else existing2);
                      execErrState = getString args ''exec_err_state'';
                      existing4 = (if execErrState \<noteq> '''' then
                                     setField ''ExecErrState'' (GStr execErrState) existing3
                                   else existing3);
                      existing =
                        (case map_of args ''is_paused'' of
                           Some v \<Rightarrow> setField ''IsPaused'' (GBool (getBool args ''is_paused'')) existing4
                         | None \<Rightarrow> existing4)
                  in case c (UpdateAlertRule uid existing) w1 of
                       (Inl err, w2) \<Rightarrow>
                         ((errorResult (''Failed to update alert rule: '' @ err), None), w2)
                     | (Inr result, w2) \<Rightarrow> (jsonResult L result, w2))"

definition handleDeleteAlertRule :: "'w Lib \<Rightarrow> 'w Capability \<Rightarrow> 'w ToolHandler" where
  "handleDeleteAlertRule L c args w =
     (let uid = getString args ''uid''
      in if uid = '''' then ((errorResult ''uid is required'', None), w)
         else case c (DeleteAlertRule uid) w of
                (Inl err, w') \<Rightarrow> ((errorResult (''Failed to delete alert rule: '' @ err), None), w')
              | (Inr ok, w') \<Rightarrow>
                  (jsonResult L (GObj [(''status'', GStr ''deleted''), (''uid'', GStr uid)]), w'))"

definition handleListAnnotations :: "'w Lib \<Rightarrow> 'w Capability \<Rightarrow> 'w ToolHandler" where
  "handleListAnnotations L c args w =
     (let from = getInt64 args ''from'';
          to = getInt64 args ''to'';
          dashboardUID = getString args ''dashboard_uid'';
          panelID = getInt64 args ''panel_id'';
          tags = getStringSlice args ''tags'';
          limit = getInt args ''limit''
      in case c (GetAnnotations from to dashboardUID panelID tags limit) w of
           (Inl err, w') \<Rightarrow> ((errorResult (''Failed to list annotations: '' @ err), None), w')
         | (Inr annotations, w') \<Rightarrow> (jsonResult L annotations, w'))"

definition handleCreateAnnotation :: "'w Lib \<Rightarrow> 'w Capability \<Rightarrow> 'w ToolHandler" where
  "handleCreateAnnotation L c args w =
     (let text = getString args ''text''
      in if text = '''' then ((errorResult ''text is required'', None), w)
         else
           let time0 = getInt64 args ''time'';
               time = (if time0 = 0 then UnixMilli L w else time0);
               ann = GObj [(''Text'', GStr text),
                           (''Time'', GInt64 time),
                           (''TimeEnd'', GInt64 (getInt64 args ''time_end'')),
                           (''DashboardUID'', GStr (getString args ''dashboard_uid'')),
                           (''PanelID'', GInt64 (getInt64 args ''panel_id'')),
                           (''Tags'', strs (getStringSlice args ''tags''))]
           in case c (CreateAnnotation ann) w of
                (Inl err, w') \<Rightarrow> ((errorResult (''Failed to create annotation: '' @ err), None), w')
              | (Inr result, w') \<Rightarrow> (jsonResult L result, w'))"

definition handleUpdateAnnotation :: "'w Lib \<Rightarrow> 'w Capability \<Rightarrow> 'w ToolHandler" where
  "handleUpdateAnnotation L c args w =
     (let id = getInt64 args ''id''
      in if id = 0 then ((errorResult ''id is required'', None), w)
         else
           let ann = GObj [(''Text'', GStr (getString args ''text'')),
                           (''Time'', GInt64 (getInt64 args ''time'')),
                           (''TimeEnd'', GInt64 (getInt64 args ''time_end'')),
                           (''Tags'', strs (getStringSlice args ''tags''))]
           in case c (UpdateAnnotation id ann) w of
                (Inl err, w') \<Rightarrow> ((errorResult (''Failed to update annotation: '' @ err), None), w')
              | (Inr ok, w') \<Rightarrow>
                  (jsonResult L (GObj [(''status'', GStr ''updated''), (''id'', GInt64 id)]), w'))"

definition handleDeleteAnnotation :: "'w Lib \<Rightarrow> 'w Capability \<Rightarrow> 'w ToolHandler" where
  "handleDeleteAnnotation L c args w =
     (let id = getInt64 args ''id''
      in if id = 0 then ((errorResult ''id is required'', None), w)
         else case c (DeleteAnnotation id) w of
                (Inl err, w') \<Rightarrow> ((errorResult (''Failed to delete annotation: '' @ err), None), w')
              | (Inr ok, w') \<Rightarrow>
                  (jsonResult L (GObj [(''status'', GStr ''deleted''), (''id'', GInt64 id)]), w'))"

definition handleQuery :: "'w Lib \<Rightarrow> 'w Capability \<Rightarrow> 'w ToolHandler" where
  "handleQuery L c args w =
     (let dsUID = getString args ''datasource_uid'';
          dsType = getString args ''datasource_type'';
          query = getString args ''query''
      in if dsUID = '''' \<or> dsType = '''' \<or> query = '''' then
           ((errorResult ''datasource_uid, datasource_type, and query are required'', None), w)
         else
           let from0 = getString args ''from'';
               to0 = getString args ''to'';
               from = (if from0 = '''' then ''now-1h'' else from0);
               to = (if to0 = '''' then ''now'' else to0);
               req = GObj [(''From'', GStr from),
                           (''To'', GStr to),
                           (''Queries'', GArr [GObj
                              [(''RefID'', GStr ''A''),
                               (''Datasource'', GObj [(''Type'', GStr dsType), (''UID'', GStr dsUID)]),
                               (''Query'', GStr query),
                               (''MaxDataPoints'', GInt (getInt args ''max_data_points'')),
                               (''IntervalMs'', GInt (getInt args ''interval_ms''))]])]
           in case c (Query req) w of
                (Inl err, w') \<Rightarrow> ((errorResult (''Query failed: '' @ err), None), w')
              | (Inr result, w') \<Rightarrow> (jsonResult L result, w'))"

definition handleGetOrg :: "'w Lib \<Rightarrow> 'w Capability \<Rightarrow> 'w ToolHandler" where
  "handleGetOrg L c args w =
     (case c GetCurrentOrg w of
        (Inl err, w') \<Rightarrow> ((errorResult (''Failed to get organization: '' @ err), None), w')
      | (Inr org, w') \<Rightarrow> (jsonResult L org, w'))"

definition handleListOrgUsers :: "'w Lib \<Rightarrow> 'w Capability \<Rightarrow> 'w ToolHandler" where
  "handleListOrgUsers L c args w =
     (case c GetOrgUsers w of
        (Inl err, w') \<Rightarrow> ((errorResult (''Failed to list org users: '' @ err), None), w')
      | (Inr users, w') \<Rightarrow> (jsonResult L users, w'))"

definition handleGetCurrentUser :: "'w Lib \<Rightarrow> 'w Capability \<Rightarrow> 'w ToolHandler" where
  "handleGetCurrentUser L c args w =
     (case c GetCurrentUser w of
        (Inl err, w') \<Rightarrow> ((errorResult (''Failed to get current user: '' @ err), None), w')
      | (Inr user, w') \<Rightarrow> (jsonResult L user, w'))"

definition handleListTeams :: "'w Lib \<Rightarrow> 'w Capability \<Rightarrow> 'w ToolHandler" where
  "handleListTeams L c args w =
     (let query = getString args ''query'';
          page = getInt args ''page'';
          perPage = getInt args ''per_page''
      in case c (GetTeams query page perPage) w of
           (Inl err, w') \<Rightarrow> ((errorResult (''Failed to list teams: '' @ err), None), w')
         | (Inr teams, w') \<Rightarrow> (jsonResult L teams, w'))"

definition handleGetTeam :: "'w Lib \<Rightarrow> 'w Capability \<Rightarrow> 'w ToolHandler" where
  "handleGetTeam L c args w =
     (let id = getInt64 args ''id''
      in if id = 0 then ((errorResult ''id is required'', None), w)
         else case c (GetTeam id) w of
                (Inl err, w') \<Rightarrow> ((errorResult (''Failed to get team: '' @ err), None), w')
              | (Inr team, w') \<Rightarrow> (jsonResult L team, w'))"

definition handleCreateTeam :: "'w Lib \<Rightarrow> 'w Capability \<Rightarrow> 'w ToolHandler" where
  "handleCreateTeam L c args w =
     (let name = getString args ''name''
      in if name = '''' then ((errorResult ''name is required'', None), w)
         else case c (CreateTeam name (getString args ''email'')) w of
                (Inl err, w') \<Rightarrow> ((errorResult (''Failed to create team: '' @ err), None), w')
              | (Inr team, w') \<Rightarrow> (jsonResult L team, w'))"

definition handleDeleteTeam :: "'w Lib \<Rightarrow> 'w Capability \<Rightarrow> 'w ToolHandler" where
  "handleDeleteTeam L c args w =
     (let id = getInt64 args ''id''
      in if id = 0 then ((errorResult ''id is required'', None), w)
         else case c (DeleteTeam id) w of
                (Inl err, w') \<Rightarrow> ((errorResult (''Failed to delete team: '' @ err), None), w')
              | (Inr ok, w') \<Rightarrow>
                  (jsonResult L (GObj [(''status'', GStr ''deleted''), (''id'', GInt64 id)]), w'))"

subsection \<open>Registration and dispatch by name\<close>

text \<open>\<^verbatim>\<open>registerAll\<close> assigns these handlers to these names, in this order.\<close>

definition handlerTable :: "'w Lib \<Rightarrow> 'w Capability \<Rightarrow> (string \<times> 'w ToolHandler) list" where
  "handlerTable L c =
     [(''grafana_health'', handleHealth L c),
      (''grafana_search_dashboards'', handleSearchDashboards L c),
      (''grafana_get_dashboard'', handleGetDashboard L c),
      (''grafana_create_dashboard'', handleCreateDashboard L c),
      (''grafana_update_dashboard'', handleUpdateDashboard L c),
      (''grafana_delete_dashboard'', handleDeleteDashboard L c),
      (''grafana_list_datasources'', handleListDatasources L c),
      (''grafana_get_datasource'', handleGetDatasource L c),
      (''grafana_create_datasource'', handleCreateDatasource L c),
      (''grafana_update_datasource'', handleUpdateDatasource L c),
      (''grafana_delete_datasource'', handleDeleteDatasource L c),
      (''grafana_list_folders'', handleListFolders L c),
      (''grafana_get_folder'', handleGetFolder L c),
      (''grafana_create_folder'', handleCreateFolder L c),
      (''grafana_update_folder'', handleUpdateFolder L c),
      (''grafana_delete_folder'', handleDeleteFolder L c),
      (''grafana_list_alert_rules'', handleListAlertRules L c),
      (''grafana_get_alert_rule'', handleGetAlertRule L c),
      (''grafana_create_alert_rule'', handleCreateAlertRule L c),
      (''grafana_update_alert_rule'', handleUpdateAlertRule L c),
      (''grafana_delete_alert_rule'', handleDeleteAlertRule L c),
      (''grafana_list_annotations'', handleListAnnotations L c),
      (''grafana_create_annotation'', handleCreateAnnotation L c),
      (''grafana_update_annotation'', handleUpdateAnnotation L c),
      (''grafana_delete_annotation'', handleDeleteAnnotation L c),
      (''grafana_query'', handleQuery L c),
      (''grafana_get_org'', handleGetOrg L c),
      (''grafana_list_org_users'', handleListOrgUsers L c),
      (''grafana_get_current_user'', handleGetCurrentUser L c),
      (''grafana_list_teams'', handleListTeams L c),
      (''grafana_get_team'', handleGetTeam L c),
      (''grafana_create_team'', handleCreateTeam L c),
      (''grafana_delete_team'', handleDeleteTeam L c)]"

definition registerAll :: "'w Lib \<Rightarrow> 'w Registry \<Rightarrow> 'w Registry" where
  "registerAll L r =
     r\<lparr>tools := foldl (\<lambda>m nh. m(fst nh \<mapsto> snd nh)) (tools r) (handlerTable L (client r))\<rparr>"

definition NewRegistry :: "'w Lib \<Rightarrow> 'w Capability \<Rightarrow> 'w Registry" where
  "NewRegistry L c = registerAll L \<lparr>client = c, tools = Map.empty\<rparr>"

definition CallTool :: "'w Registry \<Rightarrow> string \<Rightarrow> gmap \<Rightarrow> 'w \<Rightarrow> 'w ToolOutcome" where
  "CallTool r name args w =
     (case tools r name of
        None \<Rightarrow> ((errorResult (''Unknown tool: '' @ name), None), w)
      | Some handler \<Rightarrow> handler args w)"


section \<open>Tool enablement: \<^verbatim>\<open>internal/config/config.go\<close>\<close>

text \<open>\<^verbatim>\<open>ToolConfig.Enabled\<close> is a \<^verbatim>\<open>*bool\<close>: \<open>None\<close> when the file does not set it.\<close>

record ToolConfig =
  Enabled :: "bool option"

type_synonym ToolsConfig = "string \<rightharpoonup> ToolConfig"

definition IsEnabled :: "ToolsConfig \<Rightarrow> string \<Rightarrow> bool" where
  "IsEnabled cfg name =
     (case cfg name of
        None \<Rightarrow> True
      | Some tc \<Rightarrow> (case Enabled tc of None \<Rightarrow> True | Some b \<Rightarrow> b))"

text \<open>
  Modelled from the spec: the registry construction that takes an enablement predicate,
  and its tool listing.  The dispatcher of \<^verbatim>\<open>part_001\<close> calls
  \<^verbatim>\<open>tools.NewRegistry(client, toolCfg.IsEnabled)\<close>, but the \<^verbatim>\<open>registry.go\<close> at hand
  declares \<^verbatim>\<open>NewRegistry(client)\<close> only; the two-argument constructor and the listing
  that goes with it are missing.  The spec (4.4): given a client and an enablement
  predicate, build the full candidate set of tool descriptors and handlers, then retain
  only those for which the predicate returns true; the listing returns exactly this
  retained set, in the fixed declared order.  The candidates are those of
  \<open>handlerTable\<close> and \<open>GetTools\<close>.
\<close>

definition NewRegistryEnabled ::
  "'w Lib \<Rightarrow> 'w Capability \<Rightarrow> (string \<Rightarrow> bool) \<Rightarrow> 'w Registry" where
  "NewRegistryEnabled L c isEnabled =
     (let r = \<lparr>client = c, tools = Map.empty\<rparr>
      in r\<lparr>tools := foldl (\<lambda>m nh. if isEnabled (fst nh) then m(fst nh \<mapsto> snd nh) else m)
                         (tools r) (handlerTable L (client r))\<rparr>)"

definition GetToolsEnabled :: "'w Registry \<Rightarrow> Tool list" where
  "GetToolsEnabled r = filter (\<lambda>t. tools r (Name t) \<noteq> None) (GetTools r)"

section \<open>The dispatcher: \<^verbatim>\<open>cmd/server/main.go\<close>\<close>

definition serverName :: string where "serverName = ''grafana-mcp-server''"
definition serverVersion :: string where "serverVersion = ''1.0.0''"
definition protocolVersion :: string where "protocolVersion = ''2024-11-05''"

subsection \<open>The input stream\<close>

text \<open>
  Standard input: the bytes still to come, and how the stream ends after them
  (\<^verbatim>\<open>io.EOF\<close>, or another read fault with its message).
\<close>

datatype ReadErr = EOF | ReadFault error

record Reader =
  pending :: string
  ending :: ReadErr

text \<open>
  \<^verbatim>\<open>bufio.Reader.ReadBytes(delim)\<close> reads until the first occurrence of \<^verbatim>\<open>delim\<close> and
  returns the data up to and including the delimiter; if it meets an error before finding
  a delimiter, it returns the data read before the error and the error itself.
\<close>

fun breakDelim :: "char \<Rightarrow> string \<Rightarrow> (string \<times> string) option" where
  "breakDelim d [] = None"
| "breakDelim d (c # cs) =
     (if c = d then Some ([c], cs)
      else (case breakDelim d cs of
              None \<Rightarrow> None
            | Some (line, rest) \<Rightarrow> Some (c # line, rest)))"

definition ReadBytes :: "Reader \<Rightarrow> char \<Rightarrow> (string \<times> ReadErr option) \<times> Reader" where
  "ReadBytes r delim =
     (case breakDelim delim (pending r) of
        Some (line, rest) \<Rightarrow> ((line, None), r\<lparr>pending := rest\<rparr>)
      | None \<Rightarrow> ((pending r, Some (ending r)), r\<lparr>pending := []\<rparr>))"

definition newline :: char where
  "newline = CHR 0x0A"

subsection \<open>The server and what it writes\<close>

text \<open>
  The \<^verbatim>\<open>Server\<close> struct, with the two things its methods act on besides: \<open>logged\<close>, the
  messages given to \<^verbatim>\<open>log.Printf\<close> (the diagnostic channel), and \<open>world\<close>, the state the
  client calls work on.  \<open>writer\<close> holds the writes to standard output, in order.
\<close>

record 'w Server =
  registry :: "'w Registry"
  reader :: Reader
  writer :: "string list"
  logged :: "string list"
  world :: 'w

definition send :: "'w Lib \<Rightarrow> Response \<Rightarrow> 'w Server \<Rightarrow> 'w Server" where
  "send L response s =
     (case MarshalResponse L response of
        Inl err \<Rightarrow> s\<lparr>logged := logged s @ [''Failed to marshal response: '' @ err]\<rparr>
      | Inr data \<Rightarrow> s\<lparr>writer := writer s @ [data @ [newline]]\<rparr>)"

definition sendResult :: "'w Lib \<Rightarrow> string \<Rightarrow> ResultValue \<Rightarrow> 'w Server \<Rightarrow> 'w Server" where
  "sendResult L id' result s =
     send L \<lparr>JSONRPC = ''2.0'', ID = id', Result = Some result, Error = None\<rparr> s"

definition sendError ::
  "'w Lib \<Rightarrow> string \<Rightarrow> int \<Rightarrow> string \<Rightarrow> string \<Rightarrow> 'w Server \<Rightarrow> 'w Server" where
  "sendError L id' code message details s =
     send L \<lparr>JSONRPC = ''2.0'', ID = id', Result = None,
             Error = Some \<lparr>Code = code, Message = message,
                            Data = Some \<lparr>Details = details, Cause = ''''\<rparr>\<rparr>\<rparr> s"

subsection \<open>The method handlers, the same in both dispatchers\<close>

definition handleInitialize :: "'w Lib \<Rightarrow> Request \<Rightarrow> 'w Server \<Rightarrow> 'w Server" where
  "handleInitialize L req s =
     sendResult L (ReqID req)
       (InitializeRes
          \<lparr>ProtocolVersion = protocolVersion,
           InitCapabilities = \<lparr>CapTools = Some \<lparr>ListChanged = False\<rparr>, CapResources = None\<rparr>,
           InitServerInfo = \<lparr>ServerName = serverName, ServerVersion = serverVersion\<rparr>\<rparr>) s"

definition handleCallTool :: "'w Lib \<Rightarrow> Request \<Rightarrow> 'w Server \<Rightarrow> 'w Server" where
  "handleCallTool L req s =
     (case MarshalParams L (Params req) of
        Inl err \<Rightarrow> sendError L (ReqID req) InvalidParams ''Invalid params'' err s
      | Inr paramsJSON \<Rightarrow>
          (case UnmarshalParams L paramsJSON of
             Inl err \<Rightarrow> sendError L (ReqID req) InvalidParams ''Invalid params'' err s
           | Inr params \<Rightarrow>
               (case CallTool (registry s) (CallName params) (Arguments params) (world s) of
                  ((result, Some err), w') \<Rightarrow>
                    sendError L (ReqID req) InternalError ''Tool execution failed'' err
                      (s\<lparr>world := w'\<rparr>)
                | ((result, None), w') \<Rightarrow>
                    sendResult L (ReqID req) (CallToolRes result) (s\<lparr>world := w'\<rparr>))))"

definition isNotification :: "Request \<Rightarrow> bool" where
  "isNotification req = (length (ReqID req) = 0 \<or> ReqID req = ''null'')"

subsection \<open>The dispatcher of \<^verbatim>\<open>part_001\<close>, built on the registry with a predicate\<close>

definition handleListTools :: "'w Lib \<Rightarrow> Request \<Rightarrow> 'w Server \<Rightarrow> 'w Server" where
  "handleListTools L req s =
     sendResult L (ReqID req) (ListToolsRes \<lparr>Tools = GetToolsEnabled (registry s)\<rparr>) s"

definition handleRequest :: "'w Lib \<Rightarrow> Request \<Rightarrow> 'w Server \<Rightarrow> 'w Server" where
  "handleRequest L req s =
     (if Method req = ''initialize'' then handleInitialize L req s
      else if Method req = ''tools/list'' then handleListTools L req s
      else if Method req = ''tools/call'' then handleCallTool L req s
      else if Method req = ''ping'' then sendResult L (ReqID req) EmptyObject s
      else sendError L (ReqID req) MethodNotFound ''Method not found'' (Method req) s)"

text \<open>One turn of the loop of \<^verbatim>\<open>Run\<close>, from the line that was read to the next read.\<close>

definition loopBody :: "'w Lib \<Rightarrow> string \<Rightarrow> 'w Server \<Rightarrow> 'w Server" where
  "loopBody L line s =
     (if length line = 0 then s
      else case UnmarshalRequest L line of
             Inl err \<Rightarrow> s\<lparr>logged := logged s @ [''Parse error: '' @ err]\<rparr>
           | Inr request \<Rightarrow>
               (if isNotification request then
                  (if Method request = ''initialized''
                      \<or> Method request = ''notifications/cancelled'' then s
                   else s)
                else handleRequest L request s))"

lemma reader_send: "reader (send L response s) = reader s"
  by (simp add: send_def split: sum.splits)

lemma reader_handleCallTool: "reader (handleCallTool L req s) = reader s"
  by (simp add: handleCallTool_def sendError_def sendResult_def reader_send
      split: sum.splits prod.splits option.splits)

lemma reader_handleRequest: "reader (handleRequest L req s) = reader s"
  by (simp add: handleRequest_def handleInitialize_def handleListTools_def sendError_def
      sendResult_def reader_send reader_handleCallTool)

lemma reader_loopBody: "reader (loopBody L line s) = reader s"
  by (simp add: loopBody_def reader_handleRequest split: sum.splits)

lemma breakDelim_shorter: "breakDelim d bs = Some (line, rest) \<Longrightarrow> length rest < length bs"
  by (induction bs arbitrary: line) (auto split: if_splits option.splits)

function Run :: "'w Lib \<Rightarrow> 'w Server \<Rightarrow> error option \<times> 'w Server" where
  "Run L s =
     (case ReadBytes (reader s) newline of
        ((line, Some err), r') \<Rightarrow>
          (case err of
             EOF \<Rightarrow> (None, s\<lparr>reader := r'\<rparr>)
           | ReadFault msg \<Rightarrow> (Some (''read error: '' @ msg), s\<lparr>reader := r'\<rparr>))
      | ((line, None), r') \<Rightarrow> Run L (loopBody L line (s\<lparr>reader := r'\<rparr>)))"
  by pat_completeness auto
termination Run
proof (relation "measure (\<lambda>(L, s). length (pending (reader s)))")
  show "wf (measure (\<lambda>(L, s). length (pending (reader s))))"
    by simp
next
  fix L :: "'w Lib" and s :: "'w Server" and x r' line y
  assume "(x, r') = ReadBytes (reader s) newline" and "(line, y) = x" and "y = None"
  then have "ReadBytes (reader s) newline = ((line, None), r')"
    by simp
  then have "length (pending r') < length (pending (reader s))"
    by (auto simp: ReadBytes_def split: option.splits dest: breakDelim_shorter)
  then show "((L, loopBody L line (s\<lparr>reader := r'\<rparr>)), (L, s))
               \<in> measure (\<lambda>(L, s). length (pending (reader s)))"
    by (simp add: reader_loopBody)
qed

declare Run.simps [simp del]

subsection \<open>The dispatcher of \<^verbatim>\<open>part_000\<close>, built on \<^verbatim>\<open>NewRegistry(client)\<close>\<close>

definition handleListTools_v0 :: "'w Lib \<Rightarrow> Request \<Rightarrow> 'w Server \<Rightarrow> 'w Server" where
  "handleListTools_v0 L req s =
     sendResult L (ReqID req) (ListToolsRes \<lparr>Tools = GetTools (registry s)\<rparr>) s"

definition handleRequest_v0 :: "'w Lib \<Rightarrow> Request \<Rightarrow> 'w Server \<Rightarrow> 'w Server" where
  "handleRequest_v0 L req s =
     (let isNotif = (length (ReqID req) = 0 \<or> ReqID req = ''null'')
      in if Method req = ''initialize'' then
           (if \<not> isNotif then handleInitialize L req s else s)
         else if Method req = ''initialized'' \<or> Method req = ''notifications/cancelled'' then s
         else if Method req = ''tools/list'' then
           (if \<not> isNotif then handleListTools_v0 L req s else s)
         else if Method req = ''tools/call'' then
           (if \<not> isNotif then handleCallTool L req s else s)
         else if Method req = ''ping'' then
           (if \<not> isNotif then sendResult L (ReqID req) EmptyObject s else s)
         else
           (if \<not> isNotif then
              sendError L (ReqID req) MethodNotFound ''Method not found'' (Method req) s
            else s))"

definition loopBody_v0 :: "'w Lib \<Rightarrow> string \<Rightarrow> 'w Server \<Rightarrow> 'w Server" where
  "loopBody_v0 L line s =
     (if length line = 0 then s
      else case UnmarshalRequest L line of
             Inl err \<Rightarrow> sendError L ''null'' ParseError ''Parse error'' err s
           | Inr request \<Rightarrow>
               (if length (ReqID request) = 0 \<or> ReqID request = ''null'' then
                  handleRequest_v0 L request s
                else handleRequest_v0 L request s))"

lemma reader_handleRequest_v0: "reader (handleRequest_v0 L req s) = reader s"
  by (simp add: handleRequest_v0_def handleInitialize_def handleListTools_v0_def sendError_def
      sendResult_def reader_send reader_handleCallTool Let_def)

lemma reader_loopBody_v0: "reader (loopBody_v0 L line s) = reader s"
  by (simp add: loopBody_v0_def reader_handleRequest_v0 sendError_def reader_send
      split: sum.splits)

function Run_v0 :: "'w Lib \<Rightarrow> 'w Server \<Rightarrow> error option \<times> 'w Server" where
  "Run_v0 L s =
     (case ReadBytes (reader s) newline of
        ((line, Some err), r') \<Rightarrow>
          (case err of
             EOF \<Rightarrow> (None, s\<lparr>reader := r'\<rparr>)
           | ReadFault msg \<Rightarrow> (Some (''read error: '' @ msg), s\<lparr>reader := r'\<rparr>))
      | ((line, None), r') \<Rightarrow> Run_v0 L (loopBody_v0 L line (s\<lparr>reader := r'\<rparr>)))"
  by pat_completeness auto
termination Run_v0
proof (relation "measure (\<lambda>(L, s). length (pending (reader s)))")
  show "wf (measure (\<lambda>(L, s). length (pending (reader s))))"
    by simp
next
  fix L :: "'w Lib" and s :: "'w Server" and x r' line y
  assume "(x, r') = ReadBytes (reader s) newline" and "(line, y) = x" and "y = None"
  then have "ReadBytes (reader s) newline = ((line, None), r')"
    by simp
  then have "length (pending r') < length (pending (reader s))"
    by (auto simp: ReadBytes_def split: option.splits dest: breakDelim_shorter)
  then show "((L, loopBody_v0 L line (s\<lparr>reader := r'\<rparr>)), (L, s))
               \<in> measure (\<lambda>(L, s). length (pending (reader s)))"
    by (simp add: reader_loopBody_v0)
qed

declare Run_v0.simps [simp del]


section \<open>A concrete setting for the examples\<close>

text \<open>
  Input lines, each ending in the newline \<^verbatim>\<open>ReadBytes\<close> leaves on it, and the requests
  \<^verbatim>\<open>json.Unmarshal\<close> decodes them into.
\<close>

definition pingLine :: string where
  \<open>pingLine = ''{"jsonrpc":"2.0","id":1,"method":"ping"}'' @ [newline]\<close>

definition initializedLine :: string where
  \<open>initializedLine = ''{"jsonrpc":"2.0","method":"initialized"}'' @ [newline]\<close>

definition bogusLine :: string where
  \<open>bogusLine =
     ''{"jsonrpc":"2.0","id":2,"method":"tools/call","params":{"name":"bogus_tool","arguments":{}}}''
       @ [newline]\<close>

definition unknownMethodLine :: string where
  \<open>unknownMethodLine = ''{"jsonrpc":"2.0","id":3,"method":"unknown/method"}'' @ [newline]\<close>

definition silentCallLine :: string where
  \<open>silentCallLine =
     ''{"jsonrpc":"2.0","id":null,"method":"tools/call","params":{"name":"bogus_tool","arguments":{}}}''
       @ [newline]\<close>

definition badParamsLine :: string where
  \<open>badParamsLine = ''{"jsonrpc":"2.0","id":"five","method":"tools/call","params":"oops"}'' @ [newline]\<close>

definition garbageLine :: string where
  "garbageLine = ''not json'' @ [newline]"

definition bogusParams :: gval where
  "bogusParams = GObj [(''name'', GStr ''bogus_tool''), (''arguments'', GObj [])]"

definition exampleRequests :: "(string \<times> Request) list" where
  \<open>exampleRequests =
     [(pingLine, \<lparr>ReqJSONRPC = ''2.0'', ReqID = ''1'', Method = ''ping'', Params = GNil\<rparr>),
      (initializedLine,
         \<lparr>ReqJSONRPC = ''2.0'', ReqID = '''', Method = ''initialized'', Params = GNil\<rparr>),
      (bogusLine,
         \<lparr>ReqJSONRPC = ''2.0'', ReqID = ''2'', Method = ''tools/call'', Params = bogusParams\<rparr>),
      (unknownMethodLine,
         \<lparr>ReqJSONRPC = ''2.0'', ReqID = ''3'', Method = ''unknown/method'', Params = GNil\<rparr>),
      (silentCallLine,
         \<lparr>ReqJSONRPC = ''2.0'', ReqID = ''null'', Method = ''tools/call'', Params = bogusParams\<rparr>),
      (badParamsLine,
         \<lparr>ReqJSONRPC = ''2.0'', ReqID = ''"five"'', Method = ''tools/call'',
          Params = GStr ''oops''\<rparr>)]\<close>

text \<open>
  The decoder of the examples: the lines above decode into their requests; of the others,
  a line of white space only is rejected as \<^verbatim>\<open>json.Unmarshal\<close> rejects it, with
  \<^verbatim>\<open>unexpected end of JSON input\<close>.
\<close>

definition exampleUnmarshalRequest :: "string \<Rightarrow> error + Request" where
  "exampleUnmarshalRequest line =
     (case map_of exampleRequests line of
        Some req \<Rightarrow> Inr req
      | None \<Rightarrow>
          (if filter (\<lambda>ch. ch \<noteq> newline \<and> ch \<noteq> CHR '' '') line = [] then
             Inl ''unexpected end of JSON input''
           else Inl ''invalid character''))"

definition exampleMarshalParams :: "gval \<Rightarrow> error + string" where
  \<open>exampleMarshalParams v =
     (if v = GNil then Inr ''null''
      else if v = bogusParams then Inr ''{"arguments":{},"name":"bogus_tool"}''
      else if v = GStr ''oops'' then Inr ''"oops"''
      else Inl ''json: unsupported value'')\<close>

definition exampleUnmarshalParams :: "string \<Rightarrow> error + CallToolParams" where
  \<open>exampleUnmarshalParams j =
     (if j = ''null'' then Inr \<lparr>CallName = '''', Arguments = []\<rparr>
      else if j = ''{"arguments":{},"name":"bogus_tool"}'' then
        Inr \<lparr>CallName = ''bogus_tool'', Arguments = []\<rparr>
      else Inl ''json: cannot unmarshal string into Go value of type mcp.CallToolParams'')\<close>

text \<open>A rendering of a response, enough to tell the responses of the examples apart.\<close>

definition exampleMarshalResponse :: "Response \<Rightarrow> error + string" where
  \<open>exampleMarshalResponse r =
     Inr (''{"jsonrpc":"'' @ JSONRPC r @ ''","id":'' @ ID r @
          (case Error r of
             Some e \<Rightarrow> '',"error":{"code":'' @ itoa (Code e) @ '',"message":"'' @ Message e @ ''"}}''
           | None \<Rightarrow>
               (case Result r of
                  Some (CallToolRes c) \<Rightarrow>
                    '',"result":{"content":[{"type":"text","text":"''
                      @ concat (map Text (Content c)) @ ''"}]''
                      @ (if IsError c then '',"isError":true'' else '''') @ ''}}''
                | Some (ListToolsRes l) \<Rightarrow>
                    '',"result":{"tools":['' @ concat (map (\<lambda>t. ''"'' @ Name t @ ''" '') (Tools l))
                      @ '']}}''
                | _ \<Rightarrow> '',"result":{}}'')))\<close>

definition exampleLib :: "nat Lib" where
  "exampleLib =
     \<lparr>MarshalIndent = (\<lambda>v. case v of GStr s \<Rightarrow> Inr s | _ \<Rightarrow> Inr ''{}''),
      UnixMilli = (\<lambda>w. 1700000000000),
      UnmarshalRequest = exampleUnmarshalRequest,
      MarshalParams = exampleMarshalParams,
      UnmarshalParams = exampleUnmarshalParams,
      MarshalResponse = exampleMarshalResponse\<rparr>"

text \<open>
  A client over a world that counts the calls made: the dashboard \<^verbatim>\<open>missing\<close> is not
  there, saving a dashboard is refused, every other call succeeds.
\<close>

definition exampleClient :: "nat Capability" where
  "exampleClient op w =
     (case op of
        GetDashboard uid \<Rightarrow>
          (if uid = ''missing'' then (Inl ''API error (status 404): not found'', Suc w)
           else (Inr (GObj [(''Title'', GStr ''Home''), (''UID'', GStr uid)]), Suc w))
      | SaveDashboard req \<Rightarrow> (Inl ''API error (status 403): forbidden'', Suc w)
      | _ \<Rightarrow> (Inr GNil, Suc w))"

definition exampleConfig :: ToolsConfig where
  "exampleConfig = [''grafana_delete_dashboard'' \<mapsto> \<lparr>Enabled = Some False\<rparr>]"

definition exampleServer :: "string \<Rightarrow> nat Server" where
  "exampleServer input =
     \<lparr>registry = NewRegistryEnabled exampleLib exampleClient (IsEnabled exampleConfig),
      reader = \<lparr>pending = input, ending = EOF\<rparr>,
      writer = [], logged = [], world = 0\<rparr>"



section \<open>Notions used in the statements\<close>


text \<open>
  The complete lines of an input, each with its newline; what follows the last newline is
  not a line.
\<close>

fun completeLines :: "string \<Rightarrow> string list" where
  "completeLines [] = []"
| "completeLines (c # cs) =
     (if c = newline then [c] # completeLines cs
      else (case completeLines cs of
              [] \<Rightarrow> []
            | line # lines \<Rightarrow> (c # line) # lines))"

text \<open>What \<^verbatim>\<open>Run\<close> returns for the way the stream ended.\<close>

definition streamError :: "ReadErr \<Rightarrow> error option" where
  "streamError e = (case e of EOF \<Rightarrow> None | ReadFault msg \<Rightarrow> Some (''read error: '' @ msg))"

section \<open>Properties of the client\<close>

lemma hasPrefix_iff: "hasPrefix s p \<longleftrightarrow> (\<exists>q. s = p @ q)"
  by (induction s p rule: hasPrefix.induct) auto

lemma Contains_iff: "Contains s sub \<longleftrightarrow> (\<exists>p q. s = p @ sub @ q)"
proof (induction s)
  case Nil
  then show ?case by auto
next
  case (Cons c cs)
  show ?case
  proof
    assume "Contains (c # cs) sub"
    then consider "hasPrefix (c # cs) sub" | "Contains cs sub" by auto
    then show "\<exists>p q. c # cs = p @ sub @ q"
    proof cases
      case 1
      then obtain q where "c # cs = sub @ q" by (auto simp: hasPrefix_iff)
      then have "c # cs = [] @ sub @ q" by simp
      then show ?thesis by blast
    next
      case 2
      then obtain p q where "cs = p @ sub @ q" using Cons.IH by blast
      then have "c # cs = (c # p) @ sub @ q" by simp
      then show ?thesis by blast
    qed
  next
    assume "\<exists>p q. c # cs = p @ sub @ q"
    then obtain p q where pq: "c # cs = p @ sub @ q" by blast
    show "Contains (c # cs) sub"
    proof (cases p)
      case Nil
      with pq have "hasPrefix (c # cs) sub" by (auto simp: hasPrefix_iff)
      then show ?thesis by simp
    next
      case (Cons a p')
      with pq have "cs = p' @ sub @ q" by simp
      then have "Contains cs sub" using Cons.IH by blast
      then show ?thesis by simp
    qed
  qed
qed


lemma digitVal_digitChar: "d < 10 \<Longrightarrow> digitVal (digitChar d) = d"
proof -
  assume "d < 10"
  then have "d \<in> {0, 1, 2, 3, 4, 5, 6, 7, 8, 9}" by auto
  then show ?thesis
    by (auto simp: digitVal_def digitChar_def)
qed

lemma parseNat_snoc: "parseNat (s @ [ch]) = 10 * parseNat s + digitVal ch"
  by (simp add: parseNat_def)

lemma parseNat_natDigits: "parseNat (natDigits n) = n"
proof (induction n rule: natDigits.induct)
  case (1 n)
  show ?case
  proof (cases "n < 10")
    case True
    then show ?thesis
      by (subst natDigits.simps) (simp add: parseNat_def digitVal_digitChar)
  next
    case False
    then have "parseNat (natDigits (n div 10)) = n div 10" using 1 by simp
    with False show ?thesis
      by (subst natDigits.simps) (simp add: parseNat_snoc digitVal_digitChar)
  qed
qed

lemma itoa_nonneg: "0 \<le> i \<Longrightarrow> parseNat (itoa i) = nat i"
  by (simp add: itoa_def parseNat_natDigits)

text \<open>
  C8, as amended.  Whenever \<^verbatim>\<open>doRequest\<close> gets to the HTTP exchange (the body, if any,
  was encoded and the request was built) and the exchange yields a response with status
  code at least 400 whose body was read without a fault, the operation fails, the world
  is the one the exchange left, and the failure message is
  \<^verbatim>\<open>API error (status <code>): <body>\<close>: the decimal status code, which reads back as
  the code, followed by the response body unchanged as the last part of the message.
\<close>

theorem doRequest_api_error:
  assumes "encodeBody c body = Inr rd"
    and "newRequest c meth (baseURL c @ path) rd = Inr req"
    and "httpClient c (setHeaders c req) w = (DoResponse status (Inr respBody), w')"
    and "400 \<le> status"
  shows "doRequest c meth path body w
           = (Inl (''API error (status '' @ itoa status @ ''): '' @ respBody), w')
         \<and> parseNat (itoa status) = nat status"
proof -
  have "sendRequest c req w
          = (Inl (''API error (status '' @ itoa status @ ''): '' @ respBody), w')"
    using assms(3,4) by (simp add: sendRequest_def)
  moreover have "doRequest c meth path body w = sendRequest c req w"
    using assms(1,2) by (simp add: doRequest_def)
  moreover have "parseNat (itoa status) = nat status"
    using assms(4) by (simp add: itoa_nonneg)
  ultimately show ?thesis by simp
qed

lemma itoa_404: "itoa 404 = ''404''"
  by (simp add: itoa_def natDigits.simps [of 404] natDigits.simps [of 40]
      natDigits.simps [of 4] digitChar_def)

theorem doRequest_api_error_witness:
  "doRequest notFoundClient ''GET'' ''/api/dashboards/uid/abc'' None 0
     = (Inl ''API error (status 404): not found'', 1)"
  using doRequest_api_error [where c = notFoundClient and body = None and rd = None
      and meth = "''GET''" and path = "''/api/dashboards/uid/abc''"
      and req = "\<lparr>reqMethod = ''GET'', reqURL = ''http://localhost:3000/api/dashboards/uid/abc'',
        reqBody = None, reqHeader = Map.empty\<rparr>"
      and w = 0 and status = 404 and respBody = "''not found''" and w' = 1]
  by (simp add: notFoundClient_def itoa_404 encodeBody_def)

text \<open>
  The claim without the condition on the body fails: \<^verbatim>\<open>io.ReadAll\<close> comes before the
  status check, so a response with status 500 whose body cannot be read gives the failure
  \<^verbatim>\<open>failed to read response: ...\<close>, which carries neither the status code nor a body.
\<close>

theorem doRequest_api_error_counterexample:
  "httpClient brokenBodyClient
      (setHeaders brokenBodyClient
         \<lparr>reqMethod = ''GET'', reqURL = ''http://localhost:3000/api/health'',
          reqBody = None, reqHeader = Map.empty\<rparr>) 0
     = (DoResponse 500 (Inl ''unexpected EOF''), 1)
   \<and> (400::int) \<le> 500
   \<and> doRequest brokenBodyClient ''GET'' ''/api/health'' None 0
     = (Inl ''failed to read response: unexpected EOF'', 1)
   \<and> \<not> Contains ''failed to read response: unexpected EOF'' ''500''
   \<and> \<not> Contains ''failed to read response: unexpected EOF'' ''API error''"
  by (simp add: brokenBodyClient_def doRequest_def encodeBody_def sendRequest_def)

section \<open>Properties of the dispatcher\<close>

lemma natDigits_small: "n < 10 \<Longrightarrow> natDigits n = [digitChar n]"
  by (subst natDigits.simps) simp

lemma natDigits_large: "10 \<le> n \<Longrightarrow> natDigits n = natDigits (n div 10) @ [digitChar (n mod 10)]"
  by (subst natDigits.simps) simp

lemmas example_requests =
  exampleLib_def exampleUnmarshalRequest_def exampleRequests_def pingLine_def
  initializedLine_def bogusLine_def unknownMethodLine_def silentCallLine_def badParamsLine_def
  garbageLine_def newline_def

lemmas example_codec =
  exampleMarshalParams_def exampleUnmarshalParams_def exampleMarshalResponse_def bogusParams_def
  itoa_def natDigits_small natDigits_large digitChar_def

text \<open>
  C1.  An envelope that decodes and whose identifier is absent (no bytes) or the literal
  \<^verbatim>\<open>null\<close> is a notification: one turn of the loop on its line changes nothing at all,
  in either dispatcher: nothing is written to the output, nothing is logged, no handler
  runs and no client call is made, whatever the method and the parameters are.
\<close>

theorem notification_is_silent:
  assumes "UnmarshalRequest L line = Inr req"
    and "ReqID req = [] \<or> ReqID req = ''null''"
  shows "loopBody L line s = s \<and> loopBody_v0 L line s = s"
  using assms
  by (auto simp: loopBody_def loopBody_v0_def isNotification_def handleRequest_v0_def)

theorem notification_is_silent_witness:
  "loopBody exampleLib silentCallLine (exampleServer []) = exampleServer []
   \<and> loopBody_v0 exampleLib silentCallLine (exampleServer []) = exampleServer []
   \<and> writer (exampleServer []) = []"
  using notification_is_silent [of exampleLib silentCallLine
      "\<lparr>ReqJSONRPC = ''2.0'', ReqID = ''null'', Method = ''tools/call'', Params = bogusParams\<rparr>"
      "exampleServer []"]
  by (simp add: example_requests exampleServer_def)

lemma send_ok:
  "MarshalResponse L r = Inr data \<Longrightarrow> send L r s = s\<lparr>writer := writer s @ [data @ [newline]]\<rparr>"
  by (simp add: send_def)





lemma breakDelim_None_lines: "breakDelim newline bs = None \<Longrightarrow> completeLines bs = []"
  by (induction bs) (auto split: if_splits option.splits)

lemma breakDelim_Some_lines:
  "breakDelim newline bs = Some (line, rest) \<Longrightarrow> completeLines bs = line # completeLines rest"
  by (induction bs arbitrary: line) (auto split: if_splits option.splits)

lemma breakDelim_nonempty: "breakDelim d bs = Some (line, rest) \<Longrightarrow> line \<noteq> [] \<and> last line = d"
  by (induction bs arbitrary: line) (auto split: if_splits option.splits)

lemma send_reader_upd: "send L resp (s\<lparr>reader := r\<rparr>) = (send L resp s)\<lparr>reader := r\<rparr>"
  by (simp add: send_def split: sum.splits)

lemma handleCallTool_reader_upd:
  "handleCallTool L req (s\<lparr>reader := r\<rparr>) = (handleCallTool L req s)\<lparr>reader := r\<rparr>"
  by (simp add: handleCallTool_def sendError_def sendResult_def send_def
      split: sum.splits prod.splits option.splits)

lemma handleRequest_reader_upd:
  "handleRequest L req (s\<lparr>reader := r\<rparr>) = (handleRequest L req s)\<lparr>reader := r\<rparr>"
  by (simp add: handleRequest_def handleInitialize_def handleListTools_def sendError_def
      sendResult_def send_reader_upd handleCallTool_reader_upd)

lemma loopBody_reader_upd:
  "loopBody L line (s\<lparr>reader := r\<rparr>) = (loopBody L line s)\<lparr>reader := r\<rparr>"
  by (simp add: loopBody_def handleRequest_reader_upd split: sum.splits)

lemma foldl_loopBody_reader_upd:
  "foldl (\<lambda>t line. loopBody L line t) (s\<lparr>reader := r\<rparr>) ls
     = (foldl (\<lambda>t line. loopBody L line t) s ls)\<lparr>reader := r\<rparr>"
  by (induction ls arbitrary: s) (simp_all add: loopBody_reader_upd)

lemma Run_characterised:
  "Run L s =
     (streamError (ending (reader s)),
      (foldl (\<lambda>t line. loopBody L line t) s (completeLines (pending (reader s))))
        \<lparr>reader := \<lparr>pending = [], ending = ending (reader s)\<rparr>\<rparr>)"
proof (induction L s rule: Run.induct)
  case (1 L s)
  show ?case
  proof (cases "breakDelim newline (pending (reader s))")
    case None
    then have "ReadBytes (reader s) newline
                 = ((pending (reader s), Some (ending (reader s))), (reader s)\<lparr>pending := []\<rparr>)"
      by (simp add: ReadBytes_def)
    then have "Run L s = (streamError (ending (reader s)), s\<lparr>reader := (reader s)\<lparr>pending := []\<rparr>\<rparr>)"
      by (subst Run.simps) (simp add: streamError_def split: ReadErr.splits)
    moreover have "completeLines (pending (reader s)) = []"
      using None by (rule breakDelim_None_lines)
    ultimately show ?thesis by simp
  next
    case (Some lr)
    obtain line rest where lr: "lr = (line, rest)" by (cases lr)
    let ?r' = "(reader s)\<lparr>pending := rest\<rparr>"
    let ?s' = "loopBody L line (s\<lparr>reader := ?r'\<rparr>)"
    have rb: "ReadBytes (reader s) newline = ((line, None), ?r')"
      using Some lr by (simp add: ReadBytes_def)
    then have step: "Run L s = Run L ?s'"
      by (subst Run.simps) simp
    have ih: "Run L ?s' =
       (streamError (ending (reader ?s')),
        (foldl (\<lambda>t line. loopBody L line t) ?s' (completeLines (pending (reader ?s'))))
          \<lparr>reader := \<lparr>pending = [], ending = ending (reader ?s')\<rparr>\<rparr>)"
      using "1.IH" [OF rb [symmetric] refl refl] .
    have rd: "reader ?s' = ?r'"
      by (simp add: reader_loopBody)
    have cl: "completeLines (pending (reader s)) = line # completeLines rest"
      using Some lr by (simp add: breakDelim_Some_lines)
    show ?thesis
      unfolding step ih rd cl
      by (simp add: loopBody_reader_upd foldl_loopBody_reader_upd)
  qed
qed

lemma ReadBytes_line_nonempty:
  "ReadBytes r d = ((line, None), r') \<Longrightarrow> line \<noteq> [] \<and> last line = d"
  by (auto simp: ReadBytes_def split: option.splits dest: breakDelim_nonempty)

lemma send_effect:
  "send L resp s =
     (case MarshalResponse L resp of
        Inl err \<Rightarrow> s\<lparr>logged := logged s @ [''Failed to marshal response: '' @ err]\<rparr>
      | Inr data \<Rightarrow> s\<lparr>writer := writer s @ [data @ [newline]]\<rparr>)"
  by (simp add: send_def)





section \<open>Properties of the registry with a predicate\<close>

lemma foldl_enabled_lookup:
  "foldl (\<lambda>m nh. if p (fst nh) then m(fst nh \<mapsto> snd nh) else m) m0 xs k
     = (case map_of (rev (filter (\<lambda>nh. p (fst nh)) xs)) k of
          Some h \<Rightarrow> Some h
        | None \<Rightarrow> m0 k)"
proof (induction xs arbitrary: m0)
  case Nil
  then show ?case by simp
next
  case (Cons x xs)
  show ?case
    by (simp add: Cons.IH map_add_def split: option.splits)
qed

lemma tools_NewRegistryEnabled:
  "tools (NewRegistryEnabled L c p) k
     = map_of (rev (filter (\<lambda>nh. p (fst nh)) (handlerTable L c))) k"
  by (simp add: NewRegistryEnabled_def Let_def foldl_enabled_lookup split: option.splits)

lemma dom_NewRegistryEnabled:
  "dom (tools (NewRegistryEnabled L c p)) = {n \<in> fst ` set (handlerTable L c). p n}"
proof -
  have "dom (tools (NewRegistryEnabled L c p))
          = dom (map_of (rev (filter (\<lambda>nh. p (fst nh)) (handlerTable L c))))"
    by (rule arg_cong [where f = dom]) (rule ext, rule tools_NewRegistryEnabled)
  also have "\<dots> = fst ` set (filter (\<lambda>nh. p (fst nh)) (handlerTable L c))"
    by (simp add: dom_map_of_conv_image_fst)
  also have "\<dots> = {n \<in> fst ` set (handlerTable L c). p n}"
    by auto
  finally show ?thesis .
qed

lemmas tool_defs =
  grafanaHealthTool_def
  grafanaSearchDashboardsTool_def grafanaGetDashboardTool_def grafanaCreateDashboardTool_def
  grafanaUpdateDashboardTool_def grafanaDeleteDashboardTool_def
  grafanaListDatasourcesTool_def grafanaGetDatasourceTool_def grafanaCreateDatasourceTool_def
  grafanaUpdateDatasourceTool_def grafanaDeleteDatasourceTool_def
  grafanaListFoldersTool_def grafanaGetFolderTool_def grafanaCreateFolderTool_def
  grafanaUpdateFolderTool_def grafanaDeleteFolderTool_def
  grafanaListAlertRulesTool_def grafanaGetAlertRuleTool_def grafanaCreateAlertRuleTool_def
  grafanaUpdateAlertRuleTool_def grafanaDeleteAlertRuleTool_def
  grafanaListAnnotationsTool_def grafanaCreateAnnotationTool_def grafanaUpdateAnnotationTool_def
  grafanaDeleteAnnotationTool_def
  grafanaQueryTool_def
  grafanaGetOrgTool_def grafanaListOrgUsersTool_def
  grafanaGetCurrentUserTool_def
  grafanaListTeamsTool_def grafanaGetTeamTool_def grafanaCreateTeamTool_def grafanaDeleteTeamTool_def

lemma handlerTable_names:
  "map fst (handlerTable L c) = map Name (GetTools r)"
  by (simp add: handlerTable_def GetTools_def tool_defs)

lemma registry_send: "registry (send L resp s) = registry s"
  by (simp add: send_def split: sum.splits)

lemma registry_handleCallTool: "registry (handleCallTool L req s) = registry s"
  by (simp add: handleCallTool_def sendError_def sendResult_def send_def
      split: sum.splits prod.splits option.splits)

lemma registry_loopBody: "registry (loopBody L line s) = registry s"
  by (simp add: loopBody_def handleRequest_def handleInitialize_def handleListTools_def
      sendError_def sendResult_def registry_send registry_handleCallTool split: sum.splits)

lemma registry_foldl_loopBody:
  "registry (foldl (\<lambda>t line. loopBody L line t) s ls) = registry s"
  by (induction ls arbitrary: s) (simp_all add: registry_loopBody)

lemma registry_Run: "registry (snd (Run L s)) = registry s"
  by (simp add: Run_characterised registry_foldl_loopBody)

text \<open>
  C3.  For the registry built with an enablement predicate: the callable names (the keys
  of the handler map) are exactly the candidate names the predicate accepts; the names of
  the listed descriptors are that same set, so no listed descriptor has a name the
  predicate rejects; \<^verbatim>\<open>tools/list\<close> sends exactly that list; and the registry of the
  server is the same after a turn of the loop and when \<^verbatim>\<open>Run\<close> returns.
\<close>

theorem registry_is_the_enabled_tools:
  fixes L :: "'w Lib" and s :: "'w Server"
  assumes r_def: "r = NewRegistryEnabled L c isEnabled"
  shows "dom (tools r) = {n \<in> Name ` set (GetTools r). isEnabled n}
         \<and> Name ` set (GetToolsEnabled r) = {n \<in> Name ` set (GetTools r). isEnabled n}
         \<and> (\<forall>t \<in> set (GetToolsEnabled r). isEnabled (Name t))
         \<and> (registry s = r \<longrightarrow>
              handleListTools L' req s
                = sendResult L' (ReqID req) (ListToolsRes \<lparr>Tools = GetToolsEnabled r\<rparr>) s
              \<and> registry (loopBody L' line s) = r
              \<and> registry (snd (Run L' s)) = r)"
proof -
  have names: "fst ` set (handlerTable L c) = Name ` set (GetTools r)"
    using handlerTable_names [of L c r] by (metis set_map)
  have d: "dom (tools r) = {n \<in> Name ` set (GetTools r). isEnabled n}"
    unfolding r_def using dom_NewRegistryEnabled [of L c isEnabled] names
    by (simp add: r_def)
  have l: "Name ` set (GetToolsEnabled r) = {n \<in> Name ` set (GetTools r). isEnabled n}"
  proof -
    have "Name ` set (GetToolsEnabled r) = {n \<in> Name ` set (GetTools r). n \<in> dom (tools r)}"
      by (auto simp: GetToolsEnabled_def)
    then show ?thesis using d by auto
  qed
  have e: "\<forall>t \<in> set (GetToolsEnabled r). isEnabled (Name t)"
    using l by auto
  show ?thesis
    using d l e by (simp add: handleListTools_def registry_loopBody registry_Run)
qed

section \<open>Unknown tools, empty lines and the end of the loop\<close>

lemma not_registered:
  assumes "k \<notin> fst ` set (handlerTable L c)"
  shows "tools (NewRegistryEnabled L c p) k = None"
proof -
  have "k \<notin> fst ` set (rev (filter (\<lambda>nh. p (fst nh)) (handlerTable L c)))"
    using assms by auto
  then have "map_of (rev (filter (\<lambda>nh. p (fst nh)) (handlerTable L c))) k = None"
    by (rule iffD2 [OF map_of_eq_None_iff])
  then show ?thesis
    by (simp only: tools_NewRegistryEnabled)
qed

lemma handlerTable_keys:
  "map fst (handlerTable L c) =
     [''grafana_health'',
      ''grafana_search_dashboards'', ''grafana_get_dashboard'', ''grafana_create_dashboard'',
      ''grafana_update_dashboard'', ''grafana_delete_dashboard'',
      ''grafana_list_datasources'', ''grafana_get_datasource'', ''grafana_create_datasource'',
      ''grafana_update_datasource'', ''grafana_delete_datasource'',
      ''grafana_list_folders'', ''grafana_get_folder'', ''grafana_create_folder'',
      ''grafana_update_folder'', ''grafana_delete_folder'',
      ''grafana_list_alert_rules'', ''grafana_get_alert_rule'', ''grafana_create_alert_rule'',
      ''grafana_update_alert_rule'', ''grafana_delete_alert_rule'',
      ''grafana_list_annotations'', ''grafana_create_annotation'', ''grafana_update_annotation'',
      ''grafana_delete_annotation'',
      ''grafana_query'',
      ''grafana_get_org'', ''grafana_list_org_users'',
      ''grafana_get_current_user'',
      ''grafana_list_teams'', ''grafana_get_team'', ''grafana_create_team'', ''grafana_delete_team'']"
  by (simp add: handlerTable_def)

lemma bogus_not_registered: "tools (NewRegistryEnabled L c p) ''bogus_tool'' = None"
proof (rule not_registered)
  have "''bogus_tool'' \<notin> set (map fst (handlerTable L c))"
    unfolding handlerTable_keys by simp
  then show "''bogus_tool'' \<notin> fst ` set (handlerTable L c)"
    by simp
qed

text \<open>
  C4.  A \<^verbatim>\<open>tools/call\<close> request (a line read from the stream that decodes into an envelope
  with a non-null identifier and whose parameters decode) naming a tool that is not a key
  of the registry's handler map: the turn of the loop is exactly the sending of one
  response, a result and not an error (\<^verbatim>\<open>Error\<close> is absent), whose tool result has
  \<^verbatim>\<open>IsError\<close> set and the single text block \<^verbatim>\<open>Unknown tool: <name>\<close>.  No handler runs
  and the world is unchanged.
\<close>

theorem unknown_tool_is_error_result:
  assumes "ReadBytes rd newline = ((line, None), rd')"
    and "UnmarshalRequest L line = Inr req"
    and "ReqID req \<noteq> []" and "ReqID req \<noteq> ''null''"
    and "Method req = ''tools/call''"
    and "MarshalParams L (Params req) = Inr paramsJSON"
    and "UnmarshalParams L paramsJSON = Inr params"
    and "tools (registry s) (CallName params) = None"
  shows "loopBody L line s
           = send L \<lparr>JSONRPC = ''2.0'', ID = ReqID req,
                     Result = Some (CallToolRes
                       \<lparr>Content = [\<lparr>Type = ''text'', Text = ''Unknown tool: '' @ CallName params\<rparr>],
                        IsError = True\<rparr>),
                     Error = None\<rparr> s"
proof -
  have "line \<noteq> []"
    using assms(1) ReadBytes_line_nonempty by blast
  then have "loopBody L line s = handleRequest L req s"
    using assms(2-4) by (simp add: loopBody_def isNotification_def)
  also have "\<dots> = handleCallTool L req s"
    using assms(5) by (simp add: handleRequest_def)
  finally show ?thesis
    using assms(6-8)
    by (simp add: handleCallTool_def CallTool_def errorResult_def sendResult_def)
qed

lemma ReadBytes_bogusLine:
  "ReadBytes \<lparr>pending = bogusLine, ending = EOF\<rparr> newline
     = ((bogusLine, None), \<lparr>pending = [], ending = EOF\<rparr>)"
  by (simp add: ReadBytes_def bogusLine_def newline_def)

text \<open>The spec's scenario 3.\<close>

theorem unknown_tool_is_error_result_witness:
  \<open>writer (loopBody exampleLib bogusLine (exampleServer []))
     = [''{"jsonrpc":"2.0","id":2,"result":{"content":[{"type":"text","text":"Unknown tool: bogus_tool"}],"isError":true}}''
          @ [newline]]\<close>
proof -
  let ?req = "\<lparr>ReqJSONRPC = ''2.0'', ReqID = ''2'', Method = ''tools/call'', Params = bogusParams\<rparr>"
  have 1: "UnmarshalRequest exampleLib bogusLine = Inr ?req"
    by (simp add: example_requests)
  have 2: \<open>MarshalParams exampleLib (Params ?req) = Inr ''{"arguments":{},"name":"bogus_tool"}''\<close>
    by (simp add: exampleLib_def exampleMarshalParams_def bogusParams_def)
  have 3: \<open>UnmarshalParams exampleLib ''{"arguments":{},"name":"bogus_tool"}''
            = Inr \<lparr>CallName = ''bogus_tool'', Arguments = []\<rparr>\<close>
    by (simp add: exampleLib_def exampleUnmarshalParams_def)
  have 4: "tools (registry (exampleServer [])) (CallName \<lparr>CallName = ''bogus_tool'', Arguments = []\<rparr>) = None"
    by (simp add: exampleServer_def bogus_not_registered)
  have "loopBody exampleLib bogusLine (exampleServer [])
          = send exampleLib \<lparr>JSONRPC = ''2.0'', ID = ''2'',
                     Result = Some (CallToolRes
                       \<lparr>Content = [\<lparr>Type = ''text'', Text = ''Unknown tool: bogus_tool''\<rparr>],
                        IsError = True\<rparr>),
                     Error = None\<rparr> (exampleServer [])"
    using unknown_tool_is_error_result [OF ReadBytes_bogusLine 1 _ _ _ 2 3 4] by simp
  then show ?thesis
    by (simp add: send_def exampleLib_def exampleMarshalResponse_def exampleServer_def)
qed

text \<open>
  C5 does not hold of the code.  A line that \<^verbatim>\<open>ReadBytes\<close> returns without an error
  always ends in the delimiter, so its length is never 0 and the test
  \<^verbatim>\<open>len(line) == 0\<close> never skips anything.  An empty input line arrives as the one byte
  \<^verbatim>\<open>\n\<close> and is handed to the decoder; when the decoder rejects it (as \<^verbatim>\<open>json.Unmarshal\<close>
  does, with \<^verbatim>\<open>unexpected end of JSON input\<close>), the dispatcher of \<^verbatim>\<open>part_001\<close> logs a
  parse error and the dispatcher of \<^verbatim>\<open>part_000\<close> sends a parse-error response with the
  identifier \<^verbatim>\<open>null\<close>.
\<close>

theorem empty_line_is_decoded:
  assumes "UnmarshalRequest L [newline] = Inl err"
    and "reader s = \<lparr>pending = [newline], ending = EOF\<rparr>"
  shows "fst (ReadBytes (reader s) newline) = ([newline], None)
         \<and> Run L s = (None, s\<lparr>reader := \<lparr>pending = [], ending = EOF\<rparr>,
                              logged := logged s @ [''Parse error: '' @ err]\<rparr>)
         \<and> Run_v0 L s = (None, (sendError L ''null'' ParseError ''Parse error'' err s)
                                  \<lparr>reader := \<lparr>pending = [], ending = EOF\<rparr>\<rparr>)"
proof -
  have rb: "ReadBytes (reader s) newline = (([newline], None), \<lparr>pending = [], ending = EOF\<rparr>)"
    using assms(2) by (simp add: ReadBytes_def)
  have rb2: "ReadBytes \<lparr>pending = [], ending = EOF\<rparr> newline = (([], Some EOF), \<lparr>pending = [], ending = EOF\<rparr>)"
    by (simp add: ReadBytes_def)
  have "Run L s = Run L (loopBody L [newline] (s\<lparr>reader := \<lparr>pending = [], ending = EOF\<rparr>\<rparr>))"
    by (subst Run.simps) (simp add: rb)
  also have "\<dots> = (None, s\<lparr>reader := \<lparr>pending = [], ending = EOF\<rparr>,
                              logged := logged s @ [''Parse error: '' @ err]\<rparr>)"
    using assms(1) by (subst Run.simps) (simp add: loopBody_def rb2)
  finally have 1: "Run L s = (None, s\<lparr>reader := \<lparr>pending = [], ending = EOF\<rparr>,
                              logged := logged s @ [''Parse error: '' @ err]\<rparr>)" .
  have "Run_v0 L s = Run_v0 L (loopBody_v0 L [newline] (s\<lparr>reader := \<lparr>pending = [], ending = EOF\<rparr>\<rparr>))"
    by (subst Run_v0.simps) (simp add: rb)
  also have "\<dots> = (None, (sendError L ''null'' ParseError ''Parse error'' err s)
                                  \<lparr>reader := \<lparr>pending = [], ending = EOF\<rparr>\<rparr>)"
    using assms(1)
    by (subst Run_v0.simps)
      (simp add: loopBody_v0_def rb2 sendError_def send_def ReadBytes_def split: sum.splits)
  finally show ?thesis using 1 rb by simp
qed


lemma empty_line_rejected:
  "UnmarshalRequest exampleLib [newline] = Inl ''unexpected end of JSON input''"
  by (simp add: example_requests)

theorem empty_line_is_decoded_witness:
  \<open>Run exampleLib (exampleServer [newline])
     = (None, (exampleServer [])\<lparr>logged := [''Parse error: unexpected end of JSON input'']\<rparr>)
   \<and> writer (snd (Run_v0 exampleLib (exampleServer [newline])))
     = [''{"jsonrpc":"2.0","id":null,"error":{"code":-32700,"message":"Parse error"}}'' @ [newline]]\<close>
proof -
  have i: "itoa ParseError = ''-32700''"
    by (simp add: ParseError_def itoa_def natDigits_small natDigits_large digitChar_def)
  have r: "reader (exampleServer [newline]) = \<lparr>pending = [newline], ending = EOF\<rparr>"
    by (simp add: exampleServer_def)
  show ?thesis
    using empty_line_is_decoded [OF empty_line_rejected r]
    by (simp add: exampleServer_def sendError_def send_def exampleLib_def
        exampleMarshalResponse_def i)
qed

text \<open>
  C9.  \<^verbatim>\<open>Run\<close> is a total function: on every input it returns.  It returns no error
  exactly when the stream ends with end-of-stream, and the error \<^verbatim>\<open>read error: ...\<close> when
  the stream ends with another read fault.  By the time it returns, every complete line
  of the input has had its turn of the loop, in order, and the input is used up: no
  decoding failure, unknown method or failing tool ends the loop before the stream ends.
\<close>

theorem Run_ends_with_the_stream:
  "fst (Run L s) = (case ending (reader s) of
                      EOF \<Rightarrow> None
                    | ReadFault msg \<Rightarrow> Some (''read error: '' @ msg))
   \<and> (fst (Run L s) = None) = (ending (reader s) = EOF)
   \<and> snd (Run L s) =
        (foldl (\<lambda>t line. loopBody L line t) s (completeLines (pending (reader s))))
          \<lparr>reader := \<lparr>pending = [], ending = ending (reader s)\<rparr>\<rparr>"
  by (simp add: Run_characterised streamError_def split: ReadErr.splits)

lemma completeLines_append:
  "newline \<notin> set l \<Longrightarrow> completeLines (l @ newline # rest) = (l @ [newline]) # completeLines rest"
  by (induction l) auto

theorem Run_ends_with_the_stream_witness:
  \<open>fst (Run exampleLib (exampleServer (garbageLine @ unknownMethodLine @ pingLine @ ''{"jsonrpc'')))
     = None
   \<and> logged (snd (Run exampleLib
        (exampleServer (garbageLine @ unknownMethodLine @ pingLine @ ''{"jsonrpc''))))
     = [''Parse error: invalid character'']
   \<and> writer (snd (Run exampleLib
        (exampleServer (garbageLine @ unknownMethodLine @ pingLine @ ''{"jsonrpc''))))
     = [''{"jsonrpc":"2.0","id":3,"error":{"code":-32601,"message":"Method not found"}}'' @ [newline],
        ''{"jsonrpc":"2.0","id":1,"result":{}}'' @ [newline]]\<close>
proof -
  let ?input = \<open>garbageLine @ unknownMethodLine @ pingLine @ ''{"jsonrpc''\<close>
  let ?s0 = "exampleServer ?input"
  have cl: "completeLines ?input = [garbageLine, unknownMethodLine, pingLine]"
    by (simp add: garbageLine_def unknownMethodLine_def pingLine_def newline_def)
  have i: "itoa MethodNotFound = ''-32601''"
    by (simp add: MethodNotFound_def itoa_def natDigits_small natDigits_large digitChar_def)
  have b: \<open>loopBody exampleLib pingLine
        (loopBody exampleLib unknownMethodLine (loopBody exampleLib garbageLine ?s0))
      = ?s0\<lparr>logged := [''Parse error: invalid character''],
             writer := [''{"jsonrpc":"2.0","id":3,"error":{"code":-32601,"message":"Method not found"}}'' @ [newline],
                        ''{"jsonrpc":"2.0","id":1,"result":{}}'' @ [newline]]\<rparr>\<close>
    by (simp add: loopBody_def isNotification_def handleRequest_def sendError_def sendResult_def
        send_def example_requests exampleServer_def exampleMarshalResponse_def i)
  have r: "reader ?s0 = \<lparr>pending = ?input, ending = EOF\<rparr>"
    by (simp add: exampleServer_def)
  have f: "foldl (\<lambda>t line. loopBody exampleLib line t) ?s0 (completeLines ?input)
      = loopBody exampleLib pingLine
          (loopBody exampleLib unknownMethodLine (loopBody exampleLib garbageLine ?s0))"
    by (simp only: cl foldl.simps)
  show ?thesis
    using Run_ends_with_the_stream [of exampleLib ?s0]
    by (simp add: r f b)
qed

text \<open>A configuration that disables one tool: it is neither callable nor listed.\<close>

theorem registry_is_the_enabled_tools_witness:
  "''grafana_delete_dashboard'' \<notin> dom (tools (registry (exampleServer [])))
   \<and> ''grafana_get_dashboard'' \<in> dom (tools (registry (exampleServer [])))
   \<and> ''grafana_delete_dashboard'' \<notin> Name ` set (GetToolsEnabled (registry (exampleServer [])))
   \<and> ''grafana_get_dashboard'' \<in> Name ` set (GetToolsEnabled (registry (exampleServer [])))"
proof -
  let ?r = "NewRegistryEnabled exampleLib exampleClient (IsEnabled exampleConfig)"
  have r: "registry (exampleServer []) = ?r"
    by (simp add: exampleServer_def)
  have names: "Name ` set (GetTools ?r) = set (map fst (handlerTable exampleLib exampleClient))"
    using handlerTable_names [of exampleLib exampleClient ?r] by (metis set_map)
  have g: "''grafana_get_dashboard'' \<in> Name ` set (GetTools ?r)"
    unfolding names handlerTable_keys by simp
  have e1: "\<not> IsEnabled exampleConfig ''grafana_delete_dashboard''"
    by (simp add: IsEnabled_def exampleConfig_def)
  have e2: "IsEnabled exampleConfig ''grafana_get_dashboard''"
    by (simp add: IsEnabled_def exampleConfig_def)
  show ?thesis
    unfolding r
    using registry_is_the_enabled_tools [of ?r exampleLib exampleClient "IsEnabled exampleConfig"]
      g e1 e2
    by simp
qed

end
